theory Spec2Isabelle
  imports Main "HOL-Library.Word"
begin

unbundle bit_operations_syntax

section \<open>mLRS transmitter: shallow embedding of mlrs-tx.cpp\<close>

text \<open>
  The embedding follows \<^verbatim>\<open>src/mLRS/CommonTx/mlrs-tx.cpp\<close> function by function.
  Global variables of the translation unit are fields of records, which every function
  takes and returns. Calls into collaborators whose code is not part of the repository
  sources at hand (serial port, MAVLink handler, debug port, modem driver, statistics)
  are recorded in traces, and the values they deliver are inputs.
\<close>

type_synonym u8 = "8 word"
type_synonym u16 = "16 word"

subsection \<open>class ChannelOrder\<close>

text \<open>
  Modelled from the spec: the values of the enumeration \<^verbatim>\<open>ChannelOrder: {AETR, TAER, ETAR}\<close>
  (its declaration is not in the sources), numbered in the order the configuration
  surface lists them.
\<close>

definition CHANNEL_ORDER_AETR :: u8 where "CHANNEL_ORDER_AETR = 0"
definition CHANNEL_ORDER_TAER :: u8 where "CHANNEL_ORDER_TAER = 1"
definition CHANNEL_ORDER_ETAR :: u8 where "CHANNEL_ORDER_ETAR = 2"

definition UINT8_MAX :: u8 where "UINT8_MAX = 255"

record tRcData =
  ch :: "u16 list"

record ChannelOrder =
  channel_order :: u8
  channel_map :: "nat list"

text \<open>The constructor: no order set yet, identity map.\<close>

definition ChannelOrder_new :: ChannelOrder where
  "ChannelOrder_new = \<lparr> channel_order = UINT8_MAX, channel_map = [0, 1, 2, 3] \<rparr>"

text \<open>
  \<^verbatim>\<open>Set\<close>: returns at once when the order is unchanged; otherwise stores the new order and
  rewrites the map in the ETAR case only (the AETR and TAER cases are empty, and the
  switch has no default).
\<close>

definition ChannelOrder_Set :: "u8 \<Rightarrow> ChannelOrder \<Rightarrow> ChannelOrder" where
  "ChannelOrder_Set new_channel_order co =
     (if new_channel_order = channel_order co then co
      else
        let co1 = co\<lparr> channel_order := new_channel_order \<rparr> in
        if channel_order co1 = CHANNEL_ORDER_AETR then co1
        else if channel_order co1 = CHANNEL_ORDER_TAER then co1
        else if channel_order co1 = CHANNEL_ORDER_ETAR then
          co1\<lparr> channel_map := (channel_map co1)[0 := 2, 1 := 0, 2 := 1, 3 := 3] \<rparr>
        else co1)"

text \<open>
  \<^verbatim>\<open>Apply\<close>: copies the first four channels, then writes channel \<open>n\<close> from the copy at
  index \<open>channel_map[n]\<close>, for \<open>n = 0..3\<close>.
\<close>

definition ChannelOrder_Apply :: "ChannelOrder \<Rightarrow> tRcData \<Rightarrow> tRcData" where
  "ChannelOrder_Apply co rc =
     (let c = [ch rc ! 0, ch rc ! 1, ch rc ! 2, ch rc ! 3] in
      foldl (\<lambda>r n. r\<lparr> ch := (ch r)[n := c ! (channel_map co ! n)] \<rparr>) rc [0, 1, 2, 3])"

text \<open>
  What the main loop does on a channel update: \<^verbatim>\<open>channelOrder.Set(Setup.Tx.ChannelOrder);
  channelOrder.Apply(&rcData)\<close>.
\<close>

definition update_channels :: "u8 \<Rightarrow> ChannelOrder \<times> tRcData \<Rightarrow> ChannelOrder \<times> tRcData" where
  "update_channels order p =
     (let co = ChannelOrder_Set order (fst p) in (co, ChannelOrder_Apply co (snd p)))"

subsection \<open>class WhileTransmit\<close>

definition WHILE_TASK_STORE_PARAMS :: u16 where "WHILE_TASK_STORE_PARAMS = 1"

text \<open>
  The object's two fields, and the lines the class writes to the debug port
  (\<^verbatim>\<open>dbg.puts\<close>): the line \<^verbatim>\<open>" store"\<close> is the execution of the STORE_PARAMS task.
\<close>

record WhileTransmit =
  tasks :: u8
  do_cnt :: u16
  dbg :: "string list"


definition WhileTransmit_Trigger :: "WhileTransmit \<Rightarrow> WhileTransmit" where
  "WhileTransmit_Trigger w = w\<lparr> do_cnt := 5 \<rparr>"

definition WhileTransmit_SetTask :: "u16 \<Rightarrow> WhileTransmit \<Rightarrow> WhileTransmit" where
  "WhileTransmit_SetTask task w = w\<lparr> tasks := ucast (ucast (tasks w) OR task) \<rparr>"

definition WhileTransmit_handle_tasks :: "WhileTransmit \<Rightarrow> WhileTransmit" where
  "WhileTransmit_handle_tasks w =
     (let w1 = w\<lparr> dbg := dbg w @ [CHR 0x0A # ''post transmit task''] \<rparr> in
      if ucast (tasks w1) AND WHILE_TASK_STORE_PARAMS \<noteq> 0 then
        w1\<lparr> tasks := ucast (ucast (tasks w1) AND NOT WHILE_TASK_STORE_PARAMS),
            dbg := dbg w1 @ ['' store''] \<rparr>
      else w1)"

definition WhileTransmit_Do :: "WhileTransmit \<Rightarrow> WhileTransmit" where
  "WhileTransmit_Do w =
     (if do_cnt w = 0 then w
      else
        let w1 = w\<lparr> do_cnt := do_cnt w - 1 \<rparr> in
        if do_cnt w1 \<noteq> 0 then w1
        else if tasks w1 = 0 then w1
        else WhileTransmit_handle_tasks w1)"

text \<open>How many tasks the object has executed so far.\<close>

definition tasks_run :: "WhileTransmit \<Rightarrow> nat" where
  "tasks_run w = length (filter (\<lambda>l. l = '' store'') (dbg w))"

text \<open>A run of the object's methods, as the main loop calls them.\<close>

datatype wt_call = Trigger | Do | SetTask u16

fun wt_step :: "wt_call \<Rightarrow> WhileTransmit \<Rightarrow> WhileTransmit" where
  "wt_step Trigger w = WhileTransmit_Trigger w"
| "wt_step Do w = WhileTransmit_Do w"
| "wt_step (SetTask t) w = WhileTransmit_SetTask t w"

fun wt_run :: "wt_call list \<Rightarrow> WhileTransmit \<Rightarrow> WhileTransmit" where
  "wt_run [] w = w"
| "wt_run (c # cs) w = wt_run cs (wt_step c w)"

text \<open>The STORE_PARAMS task is latched in the task mask.\<close>

definition store_pending :: "WhileTransmit \<Rightarrow> bool" where
  "store_pending w = (ucast (tasks w) AND WHILE_TASK_STORE_PARAMS \<noteq> (0::u16))"

subsection \<open>Enumerations\<close>

datatype CONNECT_STATE = CONNECT_STATE_LISTEN | CONNECT_STATE_SYNC | CONNECT_STATE_CONNECTED

datatype LINK_STATE =
    LINK_STATE_IDLE
  | LINK_STATE_TRANSMIT
  | LINK_STATE_TRANSMIT_WAIT
  | LINK_STATE_RECEIVE
  | LINK_STATE_RECEIVE_WAIT
  | LINK_STATE_RECEIVE_DONE

datatype RX_STATUS = RX_STATUS_NONE | RX_STATUS_INVALID | RX_STATUS_VALID

text \<open>The enumerators' values, for the comparisons with \<open>>\<close> in the main loop.\<close>

fun rx_status_val :: "RX_STATUS \<Rightarrow> nat" where
  "rx_status_val RX_STATUS_NONE = 0"
| "rx_status_val RX_STATUS_INVALID = 1"
| "rx_status_val RX_STATUS_VALID = 2"

datatype TRANSMIT_FRAME_TYPE =
    TRANSMIT_FRAME_TYPE_NORMAL
  | TRANSMIT_FRAME_TYPE_CMD_GET_RX_SETUPDATA
  | TRANSMIT_FRAME_TYPE_CMD_SET_RX_PARAMS
  | TRANSMIT_FRAME_TYPE_CMD_STORE_RX_PARAMS

datatype ANTENNA = ANTENNA_1 | ANTENNA_2

datatype SERIALPORT = Mbridge | Serial

datatype SERIAL_DESTINATION =
    SERIAL_DESTINATION_MBRDIGE
  | SERIAL_DESTINATION_SERIAL_PORT
  | SERIAL_DESTINATION_OTHER

text \<open>The results of \<^verbatim>\<open>check_rx_frame\<close> that \<^verbatim>\<open>do_receive\<close> tells apart.\<close>

datatype CHECK_RESULT = CHECK_OK | CHECK_ERROR_SYNCWORD | CHECK_ERROR_CRC

datatype MBRIDGE_CMD =
    MBRIDGE_CMD_DEVICE_REQUEST_ITEMS
  | MBRIDGE_CMD_PARAM_REQUEST_LIST
  | MBRIDGE_CMD_REQUEST_CMD
  | MBRIDGE_CMD_PARAM_SET
  | MBRIDGE_CMD_PARAM_STORE
  | MBRIDGE_CMD_OTHER

subsection \<open>Frames, statistics and collaborator calls\<close>

record tRxFrame =
  status_seq_no :: u8
  status_ack :: u8
  status_frame_type :: u8
  status_antenna :: u8
  status_transmit_antenna :: u8
  status_rssi_u7 :: u8
  status_LQ :: u8
  status_LQ_serial_data :: u8
  status_payload_len :: u8
  frame_payload :: "u8 list"

record tFrameStats =
  fs_seq_no :: u8
  fs_ack :: u8
  fs_antenna :: ANTENNA
  fs_transmit_antenna :: ANTENNA
  fs_rssi :: u8
  fs_LQ :: u8
  fs_LQ_serial_data :: u8

text \<open>
  The fields of \<^verbatim>\<open>stats\<close> that this file reads and writes. RSSI and SNR are \<^verbatim>\<open>int8_t\<close>:
  8-bit words read with \<open>sint\<close>.
\<close>

record tStats =
  transmit_seq_no :: u8
  received_seq_no_last :: u8
  received_ack_last :: u8
  last_rx_antenna :: ANTENNA
  last_tx_antenna :: ANTENNA
  last_rx_rssi1 :: u8
  last_rx_rssi2 :: u8
  last_rx_snr1 :: u8
  last_rx_snr2 :: u8
  received_antenna :: u8
  received_transmit_antenna :: u8
  received_rssi :: u8
  received_LQ :: u8
  received_LQ_serial_data :: u8

text \<open>
  Calls into collaborators, in the order the program makes them: serial port and MAVLink
  handler, byte and frame counters, frame packers of the codec, modem driver.
  \<open>Sx_SetRfFrequency i\<close> tunes to the frequency of entry \<open>i\<close> of the hop table.
\<close>

datatype call =
    Serial_getc
  | Serial_putc u8
  | Mavlink_getc
  | Mavlink_putc u8
  | Mavlink_flush
  | Stats_bytes_transmitted_Add u8
  | Stats_fresh_serial_data_transmitted_Inc
  | Stats_bytes_received_Add u8
  | Stats_fresh_serial_data_received_Inc
  | Txstats_doValidFrameReceived
  | Txstats_doFrameReceived
  | Txstats_Update1Hz
  | Txstats_Next
  | Unpack_rxcmd_rxsetupdata_frame tRxFrame
  | Pack_tx_frame tFrameStats tRcData "u8 list" u8
  | Pack_txcmd_cmd_frame tFrameStats tRcData u8
  | Pack_txcmd_set_rxparams_frame tFrameStats tRcData
  | Sx_SendFrame
  | Sx2_SendFrame
  | Sx_SetToRx
  | Sx2_SetToRx
  | Sx_ReadFrame
  | Sx2_ReadFrame
  | Sx_SetRfFrequency nat
  | Sx2_SetRfFrequency nat

subsection \<open>Constants and collaborators declared outside the sources at hand\<close>

text \<open>
  The interrupt cause masks \<^verbatim>\<open>SX12xx_IRQ_*\<close>, the sync word, the connection constants,
  the antenna switches, the frame constants, the setup values and the macro \<^verbatim>\<open>DECc\<close> are
  declared outside the sources at hand, as are the bodies of \<^verbatim>\<open>stats.Clear\<close>,
  \<^verbatim>\<open>stats.GetLastRxRssi\<close>, \<^verbatim>\<open>rssi_i8_from_u7\<close>, \<^verbatim>\<open>txstats.GetLQ\<close>,
  \<^verbatim>\<open>txstats.GetLQ_serial_data\<close>, \<^verbatim>\<open>mavlink.flush\<close> and \<^verbatim>\<open>mavlink.Do\<close>: all are
  parameters. The two link quality getters read the state of \<^verbatim>\<open>txstats\<close>, which is a
  function of the calls made so far. \<^verbatim>\<open>mavlink.flush\<close> acts on the bytes the MAVLink
  handler holds for the link, \<^verbatim>\<open>mavlink.Do\<close> on the pair of the serial port's pending
  bytes and those.
\<close>

record config =
  SX12xx_IRQ_TX_DONE :: u16
  SX12xx_IRQ_RX_DONE :: u16
  SX12xx_IRQ_TIMEOUT :: u16
  FrameSyncWord :: u16
  CONNECT_SYNC_CNT :: nat
  CONNECT_TMO_SYSTICKS :: u16
  USE_ANTENNA1 :: bool
  USE_ANTENNA2 :: bool
  FhssNum :: nat
  FRAME_TX_PAYLOAD_LEN :: nat
  FRAME_TYPE_RX :: u8
  FRAME_CMD_RX_SETUPDATA :: u8
  FRAME_CMD_RX_ACK :: u8
  FRAME_CMD_GET_RX_SETUPDATA :: u8
  FRAME_CMD_STORE_RX_PARAMS :: u8
  Rx_SerialLinkMode_MAVLINK :: bool
  Tx_SerialLinkMode_MAVLINK :: bool
  Tx_SerialDestination :: SERIAL_DESTINATION
  frame_rate_systicks :: u16
  frame_rate_hz :: u16
  DECc :: "u16 \<Rightarrow> u16 \<Rightarrow> u16"
  stats_Clear :: "tStats \<Rightarrow> tStats"
  stats_GetLastRxRssi :: "tStats \<Rightarrow> u8"
  rssi_i8_from_u7 :: "u8 \<Rightarrow> u8"
  txstats_GetLQ :: "call list \<Rightarrow> u8"
  txstats_GetLQ_serial_data :: "call list \<Rightarrow> u8"
  mavlink_flush :: "u8 list \<Rightarrow> u8 list"
  mavlink_Do :: "u8 list \<times> u8 list \<Rightarrow> u8 list \<times> u8 list"

subsection \<open>The modem's DIO interrupt handlers\<close>

text \<open>
  \<^verbatim>\<open>sx.ReadBuffer(0, (uint8_t*)&sync_word, 2)\<close>: the two bytes at offset 0 of the modem's
  buffer, stored into a 16-bit variable on a little-endian core.
\<close>

definition read_sync_word :: "u8 list \<Rightarrow> u16" where
  "read_sync_word buf = ucast (buf ! 0) OR push_bit 8 (ucast (buf ! 1))"

text \<open>
  \<^verbatim>\<open>SX_DIO_EXTI_IRQHandler\<close> and \<^verbatim>\<open>SX2_DIO_EXTI_IRQHandler\<close> have the same body, each on
  its own modem and slot. The arguments are what the modem delivers: the status word
  \<^verbatim>\<open>GetAndClearIrqStatus\<close> returns and the receive buffer. The result is the value the
  handler leaves in \<^verbatim>\<open>irq_status\<close> (resp. \<^verbatim>\<open>irq2_status\<close>).
\<close>

definition SX_DIO_EXTI_IRQHandler :: "config \<Rightarrow> u16 \<Rightarrow> u8 list \<Rightarrow> u16" where
  "SX_DIO_EXTI_IRQHandler cfg modem_irq buf =
     (let irq_status = modem_irq in
      if irq_status AND SX12xx_IRQ_RX_DONE cfg \<noteq> 0 then
        (let sync_word = read_sync_word buf in
         if sync_word \<noteq> FrameSyncWord cfg then 0 else irq_status)
      else irq_status)"

definition SX2_DIO_EXTI_IRQHandler :: "config \<Rightarrow> u16 \<Rightarrow> u8 list \<Rightarrow> u16" where
  "SX2_DIO_EXTI_IRQHandler cfg modem_irq buf =
     (let irq2_status = modem_irq in
      if irq2_status AND SX12xx_IRQ_RX_DONE cfg \<noteq> 0 then
        (let sync_word = read_sync_word buf in
         if sync_word \<noteq> FrameSyncWord cfg then 0 else irq2_status)
      else irq2_status)"

subsection \<open>Global variables\<close>

text \<open>
  The globals of the translation unit. \<open>serial_rx\<close> holds the bytes pending in the port
  \<^verbatim>\<open>serialport\<close> points to, \<open>mavlink_rx\<close> the bytes the MAVLink handler holds for the link
  (\<^verbatim>\<open>available\<close> is non-emptiness, \<^verbatim>\<open>getc\<close> takes the first byte). \<open>fhss_curr_i\<close> is
  \<^verbatim>\<open>fhss.curr_i\<close>; \<open>calls\<close> is the trace of collaborator calls.
\<close>

record tx =
  irq_status :: u16
  irq2_status :: u16
  link_rx1_status :: RX_STATUS
  link_rx2_status :: RX_STATUS
  transmit_frame_type :: TRANSMIT_FRAME_TYPE
  payload :: "u8 list"
  payload_len :: u8
  tx_tick :: u16
  tick_1hz_commensurate :: u16
  doPreTransmit :: bool
  link_state :: LINK_STATE
  connect_state :: CONNECT_STATE
  connect_tmo_cnt :: u16
  connect_sync_cnt :: u8
  setup_rx_param_changed :: bool
  stats :: tStats
  txstats_fhss_curr_i :: nat
  txstats_rx1_valid :: bool
  txstats_rx2_valid :: bool
  fhss_curr_i :: nat
  rxFrame :: tRxFrame
  rxFrame2 :: tRxFrame
  rcData :: tRcData
  channelOrder :: ChannelOrder
  whileTransmit :: WhileTransmit
  serialport :: "SERIALPORT option"
  serial_rx :: "u8 list"
  mavlink_rx :: "u8 list"
  calls :: "call list"

definition call :: "call \<Rightarrow> tx \<Rightarrow> tx" where
  "call c s = s\<lparr> calls := calls s @ [c] \<rparr>"

definition connected :: "tx \<Rightarrow> bool" where
  "connected s = (connect_state s = CONNECT_STATE_CONNECTED)"


subsection \<open>Command frames\<close>

definition process_received_cmd_rx_frame :: "config \<Rightarrow> tRxFrame \<Rightarrow> tx \<Rightarrow> tx" where
  "process_received_cmd_rx_frame cfg frame s =
     (if frame_payload frame ! 0 = FRAME_CMD_RX_SETUPDATA cfg then
        (call (Unpack_rxcmd_rxsetupdata_frame frame) s)
          \<lparr> transmit_frame_type := TRANSMIT_FRAME_TYPE_NORMAL \<rparr>
      else if frame_payload frame ! 0 = FRAME_CMD_RX_ACK cfg then
        s\<lparr> transmit_frame_type := TRANSMIT_FRAME_TYPE_NORMAL \<rparr>
      else s)"

definition pack_tx_cmd_frame :: "config \<Rightarrow> tFrameStats \<Rightarrow> tx \<Rightarrow> tx" where
  "pack_tx_cmd_frame cfg frame_stats s =
     (case transmit_frame_type s of
        TRANSMIT_FRAME_TYPE_CMD_GET_RX_SETUPDATA \<Rightarrow>
          call (Pack_txcmd_cmd_frame frame_stats (rcData s) (FRAME_CMD_GET_RX_SETUPDATA cfg)) s
      | TRANSMIT_FRAME_TYPE_CMD_SET_RX_PARAMS \<Rightarrow>
          call (Pack_txcmd_set_rxparams_frame frame_stats (rcData s)) s
      | TRANSMIT_FRAME_TYPE_CMD_STORE_RX_PARAMS \<Rightarrow>
          call (Pack_txcmd_cmd_frame frame_stats (rcData s) (FRAME_CMD_STORE_RX_PARAMS cfg)) s
      | TRANSMIT_FRAME_TYPE_NORMAL \<Rightarrow> s)"

subsection \<open>Normal frames\<close>

text \<open>
  The loop of \<^verbatim>\<open>process_transmit_frame\<close> that reads the payload: at most \<open>n\<close> more rounds,
  each taking one byte from the MAVLink handler or from the serial port, and leaving at
  the first round that finds none available.
\<close>

fun read_payload :: "config \<Rightarrow> nat \<Rightarrow> tx \<Rightarrow> tx" where
  "read_payload cfg 0 s = s"
| "read_payload cfg (Suc n) s =
     (if Rx_SerialLinkMode_MAVLINK cfg then
        (case mavlink_rx s of
           [] \<Rightarrow> s
         | c # cs \<Rightarrow>
             read_payload cfg n
               ((call Mavlink_getc s)
                  \<lparr> mavlink_rx := cs,
                    payload := (payload s)[unat (payload_len s) := c],
                    payload_len := payload_len s + 1 \<rparr>))
      else
        (case serial_rx s of
           [] \<Rightarrow> s
         | c # cs \<Rightarrow>
             read_payload cfg n
               ((call Serial_getc s)
                  \<lparr> serial_rx := cs,
                    payload := (payload s)[unat (payload_len s) := c],
                    payload_len := payload_len s + 1 \<rparr>)))"

text \<open>Lines 319 to 322: a changed receiver parameter takes the free slot.\<close>

definition latch_rx_param_changed :: "tx \<Rightarrow> tx" where
  "latch_rx_param_changed s =
     (if setup_rx_param_changed s \<and> transmit_frame_type s = TRANSMIT_FRAME_TYPE_NORMAL then
        s\<lparr> setup_rx_param_changed := False,
           transmit_frame_type := TRANSMIT_FRAME_TYPE_CMD_SET_RX_PARAMS \<rparr>
      else s)"

text \<open>Lines 324 to 349: the payload of a normal frame.\<close>

definition collect_payload :: "config \<Rightarrow> tx \<Rightarrow> tx" where
  "collect_payload cfg s =
     (if transmit_frame_type s = TRANSMIT_FRAME_TYPE_NORMAL then
        (let s1 = s\<lparr> payload := replicate (FRAME_TX_PAYLOAD_LEN cfg) 0, payload_len := 0 \<rparr> in
         if connected s1 then
           (let s2 = (if serialport s1 \<noteq> None
                      then read_payload cfg (FRAME_TX_PAYLOAD_LEN cfg) s1 else s1) in
            call Stats_fresh_serial_data_transmitted_Inc
              (call (Stats_bytes_transmitted_Add (payload_len s2)) s2))
         else
           (if serialport s1 \<noteq> None
            then (call Mavlink_flush s1)\<lparr> mavlink_rx := mavlink_flush cfg (mavlink_rx s1) \<rparr>
            else s1))
      else s)"

text \<open>Lines 351 to 372: frame statistics, packing, and the hand-over to the modem.\<close>

definition pack_and_send :: "config \<Rightarrow> ANTENNA \<Rightarrow> u8 \<Rightarrow> tx \<Rightarrow> tx" where
  "pack_and_send cfg ant ack_bit s =
     (let s1 = s\<lparr> stats := (stats s)\<lparr> last_tx_antenna := ant \<rparr> \<rparr>;
          frame_stats =
            \<lparr> fs_seq_no = transmit_seq_no (stats s1),
              fs_ack = ack_bit,
              fs_antenna = last_rx_antenna (stats s1),
              fs_transmit_antenna = ant,
              fs_rssi = stats_GetLastRxRssi cfg (stats s1),
              fs_LQ = txstats_GetLQ cfg (calls s1),
              fs_LQ_serial_data = txstats_GetLQ_serial_data cfg (calls s1) \<rparr>;
          s2 = (if transmit_frame_type s1 = TRANSMIT_FRAME_TYPE_NORMAL
                then call (Pack_tx_frame frame_stats (rcData s1) (payload s1) (payload_len s1)) s1
                else pack_tx_cmd_frame cfg frame_stats s1)
      in if ant = ANTENNA_1 then call Sx_SendFrame s2 else call Sx2_SendFrame s2)"

definition process_transmit_frame :: "config \<Rightarrow> ANTENNA \<Rightarrow> u8 \<Rightarrow> tx \<Rightarrow> tx" where
  "process_transmit_frame cfg ant ack_bit s =
     pack_and_send cfg ant ack_bit (collect_payload cfg (latch_rx_param_changed s))"

definition process_received_frame :: "config \<Rightarrow> bool \<Rightarrow> tRxFrame \<Rightarrow> tx \<Rightarrow> tx" where
  "process_received_frame cfg do_payload frame s =
     (let s1 = s\<lparr> stats := (stats s)
                   \<lparr> received_antenna := status_antenna frame,
                     received_transmit_antenna := status_transmit_antenna frame,
                     received_rssi := rssi_i8_from_u7 cfg (status_rssi_u7 frame),
                     received_LQ := status_LQ frame,
                     received_LQ_serial_data := status_LQ_serial_data frame \<rparr> \<rparr> in
      if \<not> do_payload then s1
      else if status_frame_type frame \<noteq> FRAME_TYPE_RX cfg then
        process_received_cmd_rx_frame cfg frame s1
      else
        (let s2 = (if serialport s1 \<noteq> None then
                     s1\<lparr> calls := calls s1 @
                           map (\<lambda>i. if Tx_SerialLinkMode_MAVLINK cfg
                                    then Mavlink_putc (frame_payload frame ! i)
                                    else Serial_putc (frame_payload frame ! i))
                               [0 ..< unat (status_payload_len frame)] \<rparr>
                   else s1) in
         call Stats_fresh_serial_data_received_Inc
           (call (Stats_bytes_received_Add (status_payload_len frame)) s2)))"

definition handle_receive :: "config \<Rightarrow> ANTENNA \<Rightarrow> tx \<Rightarrow> tx" where
  "handle_receive cfg ant s =
     (let rx_status = (if ant = ANTENNA_1 then link_rx1_status s else link_rx2_status s);
          frame = (if ant = ANTENNA_1 then rxFrame s else rxFrame2 s);
          s1 = (if rx_status \<noteq> RX_STATUS_INVALID then
                  (let sa = call Txstats_doValidFrameReceived
                              (process_received_frame cfg True frame s) in
                   sa\<lparr> stats := (stats sa)
                         \<lparr> received_seq_no_last := status_seq_no frame,
                           received_ack_last := status_ack frame \<rparr> \<rparr>)
                else
                  s\<lparr> stats := (stats s)
                        \<lparr> received_seq_no_last := UINT8_MAX, received_ack_last := 0 \<rparr> \<rparr>);
          s2 = s1\<lparr> stats := (stats s1)\<lparr> last_rx_antenna := ant \<rparr> \<rparr>
      in call Txstats_doFrameReceived s2)"

definition handle_receive_none :: "tx \<Rightarrow> tx" where
  "handle_receive_none s =
     s\<lparr> stats := (stats s)\<lparr> received_seq_no_last := UINT8_MAX, received_ack_last := 0 \<rparr> \<rparr>"

definition do_transmit :: "config \<Rightarrow> ANTENNA \<Rightarrow> tx \<Rightarrow> tx" where
  "do_transmit cfg ant s =
     (let ack_bit = 1;
          s1 = s\<lparr> stats := (stats s)\<lparr> transmit_seq_no := transmit_seq_no (stats s) + 1 \<rparr> \<rparr>
      in process_transmit_frame cfg ant ack_bit s1)"

text \<open>
  What the modem and the codec deliver when \<^verbatim>\<open>do_receive\<close> runs: the frame
  \<^verbatim>\<open>ReadFrame\<close> copies, the result of \<^verbatim>\<open>check_rx_frame\<close> on it, and the packet status.
\<close>

record rx_read =
  read_frame :: tRxFrame
  check_res :: CHECK_RESULT
  packet_rssi :: u8
  packet_snr :: u8

text \<open>\<^verbatim>\<open>do_receive\<close>; its \<^verbatim>\<open>return false\<close> on a sync word error is the status value 0.\<close>

definition do_receive :: "ANTENNA \<Rightarrow> rx_read \<Rightarrow> tx \<Rightarrow> RX_STATUS \<times> tx" where
  "do_receive ant r s =
     (let s1 = (if ant = ANTENNA_1
                then (call Sx_ReadFrame s)\<lparr> rxFrame := read_frame r \<rparr>
                else (call Sx2_ReadFrame s)\<lparr> rxFrame2 := read_frame r \<rparr>);
          res = check_res r
      in if res = CHECK_ERROR_SYNCWORD then (RX_STATUS_NONE, s1)
         else
           (let rx_status = (if res = CHECK_OK then RX_STATUS_VALID else RX_STATUS_INVALID);
                s2 = (if ant = ANTENNA_1
                      then s1\<lparr> stats := (stats s1)
                               \<lparr> last_rx_rssi1 := packet_rssi r, last_rx_snr1 := packet_snr r \<rparr> \<rparr>
                      else s1\<lparr> stats := (stats s1)
                               \<lparr> last_rx_rssi2 := packet_rssi r, last_rx_snr2 := packet_snr r \<rparr> \<rparr>)
            in (rx_status, s2)))"

subsection \<open>The main routine\<close>


text \<open>
  Lines 651 to 697, the system tick: the connection timeout counts down to zero, and the
  frame tick requests the pre-transmit step. The LED and telemetry tick lines touch none
  of the variables above.
\<close>

definition sys_task :: "config \<Rightarrow> tx \<Rightarrow> tx" where
  "sys_task cfg s =
     (let s1 = (if connect_tmo_cnt s \<noteq> 0
                then s\<lparr> connect_tmo_cnt := connect_tmo_cnt s - 1 \<rparr> else s);
          s2 = s1\<lparr> tx_tick := DECc cfg (tx_tick s1) (frame_rate_systicks cfg) \<rparr>
      in if tx_tick s2 = 0 then s2\<lparr> doPreTransmit := True \<rparr> else s2)"

text \<open>
  Modelled from the spec: \<^verbatim>\<open>fhss.HopToNext\<close> (not in the sources) advances
  \<open>curr_i = (curr_i + 1) mod num\<close>, where \<open>num\<close> is \<^verbatim>\<open>Config.FhssNum\<close>.
\<close>

definition fhss_HopToNext :: "config \<Rightarrow> tx \<Rightarrow> tx" where
  "fhss_HopToNext cfg s = s\<lparr> fhss_curr_i := (fhss_curr_i s + 1) mod FhssNum cfg \<rparr>"

text \<open>Lines 706 to 716, the branch \<^verbatim>\<open>LINK_STATE_TRANSMIT\<close> of the switch.\<close>

definition link_transmit :: "config \<Rightarrow> tx \<Rightarrow> tx" where
  "link_transmit cfg s =
     (let s1 = fhss_HopToNext cfg s;
          s2 = call (Sx_SetRfFrequency (fhss_curr_i s1)) s1;
          s3 = call (Sx2_SetRfFrequency (fhss_curr_i s2)) s2;
          s4 = do_transmit cfg (if USE_ANTENNA1 cfg then ANTENNA_1 else ANTENNA_2) s3
      in s4\<lparr> link_state := LINK_STATE_TRANSMIT_WAIT,
            irq_status := 0,
            irq2_status := 0,
            whileTransmit := WhileTransmit_Trigger (whileTransmit s4) \<rparr>)"

text \<open>Lines 718 to 724, the branch \<^verbatim>\<open>LINK_STATE_RECEIVE\<close>.\<close>

definition link_receive :: "config \<Rightarrow> tx \<Rightarrow> tx" where
  "link_receive cfg s =
     (let s1 = (if USE_ANTENNA1 cfg then call Sx_SetToRx s else s);
          s2 = (if USE_ANTENNA2 cfg then call Sx2_SetToRx s1 else s1)
      in s2\<lparr> link_state := LINK_STATE_RECEIVE_WAIT, irq_status := 0, irq2_status := 0 \<rparr>)"

text \<open>Lines 701 to 725, the switch on the link state.\<close>

definition link_state_switch :: "config \<Rightarrow> tx \<Rightarrow> tx" where
  "link_state_switch cfg s =
     (case link_state s of
        LINK_STATE_IDLE \<Rightarrow> s
      | LINK_STATE_RECEIVE_DONE \<Rightarrow> s
      | LINK_STATE_TRANSMIT \<Rightarrow> link_transmit cfg s
      | LINK_STATE_RECEIVE \<Rightarrow> link_receive cfg s
      | LINK_STATE_TRANSMIT_WAIT \<Rightarrow> s
      | LINK_STATE_RECEIVE_WAIT \<Rightarrow> s)"

text \<open>
  Lines 727 to 760, the causes of modem 1. The block is compiled in when antenna 1 is in
  use. A cause left over after the three handlers ends in a blink loop that never
  leaves: no state is returned.
\<close>

definition irq_handling :: "config \<Rightarrow> rx_read \<Rightarrow> tx \<Rightarrow> tx option" where
  "irq_handling cfg r s =
     (if \<not> USE_ANTENNA1 cfg then Some s
      else if irq_status s = 0 then Some s
      else
        (let s1 =
               (if link_state s = LINK_STATE_TRANSMIT_WAIT then
                  (if irq_status s AND SX12xx_IRQ_TX_DONE cfg \<noteq> 0
                   then s\<lparr> irq_status := 0, link_state := LINK_STATE_RECEIVE \<rparr>
                   else s)
                else if link_state s = LINK_STATE_RECEIVE_WAIT then
                  (if irq_status s AND SX12xx_IRQ_RX_DONE cfg \<noteq> 0
                   then (let p = do_receive ANTENNA_1 r (s\<lparr> irq_status := 0 \<rparr>)
                         in (snd p)\<lparr> link_rx1_status := fst p \<rparr>)
                   else s)
                else s);
             s2 =
               (if irq_status s1 AND SX12xx_IRQ_TIMEOUT cfg \<noteq> 0
                then s1\<lparr> irq_status := 0,
                         link_state := LINK_STATE_IDLE,
                         link_rx1_status := RX_STATUS_NONE,
                         link_rx2_status := RX_STATUS_NONE \<rparr>
                else s1)
         in if irq_status s2 AND SX12xx_IRQ_RX_DONE cfg \<noteq> 0 then None
            else if irq_status s2 AND SX12xx_IRQ_TX_DONE cfg \<noteq> 0 then None
            else Some s2))"

text \<open>Lines 761 to 794, the same for modem 2 and \<^verbatim>\<open>irq2_status\<close>.\<close>

definition irq2_handling :: "config \<Rightarrow> rx_read \<Rightarrow> tx \<Rightarrow> tx option" where
  "irq2_handling cfg r s =
     (if \<not> USE_ANTENNA2 cfg then Some s
      else if irq2_status s = 0 then Some s
      else
        (let s1 =
               (if link_state s = LINK_STATE_TRANSMIT_WAIT then
                  (if irq2_status s AND SX12xx_IRQ_TX_DONE cfg \<noteq> 0
                   then s\<lparr> irq2_status := 0, link_state := LINK_STATE_RECEIVE \<rparr>
                   else s)
                else if link_state s = LINK_STATE_RECEIVE_WAIT then
                  (if irq2_status s AND SX12xx_IRQ_RX_DONE cfg \<noteq> 0
                   then (let p = do_receive ANTENNA_2 r (s\<lparr> irq2_status := 0 \<rparr>)
                         in (snd p)\<lparr> link_rx2_status := fst p \<rparr>)
                   else s)
                else s);
             s2 =
               (if irq2_status s1 AND SX12xx_IRQ_TIMEOUT cfg \<noteq> 0
                then s1\<lparr> irq2_status := 0,
                         link_state := LINK_STATE_IDLE,
                         link_rx1_status := RX_STATUS_NONE,
                         link_rx2_status := RX_STATUS_NONE \<rparr>
                else s1)
         in if irq2_status s2 AND SX12xx_IRQ_RX_DONE cfg \<noteq> 0 then None
            else if irq2_status s2 AND SX12xx_IRQ_TX_DONE cfg \<noteq> 0 then None
            else Some s2))"

text \<open>Lines 800 to 811: was a frame received, and a valid one?\<close>

definition frame_received :: "config \<Rightarrow> tx \<Rightarrow> bool" where
  "frame_received cfg s =
     (if USE_ANTENNA1 cfg \<and> USE_ANTENNA2 cfg then
        rx_status_val (link_rx1_status s) > rx_status_val RX_STATUS_NONE
        \<or> rx_status_val (link_rx2_status s) > rx_status_val RX_STATUS_NONE
      else if USE_ANTENNA1 cfg then
        rx_status_val (link_rx1_status s) > rx_status_val RX_STATUS_NONE
      else if USE_ANTENNA2 cfg then
        rx_status_val (link_rx2_status s) > rx_status_val RX_STATUS_NONE
      else False)"

definition valid_frame_received :: "config \<Rightarrow> tx \<Rightarrow> bool" where
  "valid_frame_received cfg s =
     (if USE_ANTENNA1 cfg \<and> USE_ANTENNA2 cfg then
        rx_status_val (link_rx1_status s) > rx_status_val RX_STATUS_INVALID
        \<or> rx_status_val (link_rx2_status s) > rx_status_val RX_STATUS_INVALID
      else if USE_ANTENNA1 cfg then
        rx_status_val (link_rx1_status s) > rx_status_val RX_STATUS_INVALID
      else if USE_ANTENNA2 cfg then
        rx_status_val (link_rx2_status s) > rx_status_val RX_STATUS_INVALID
      else False)"

text \<open>
  Lines 814 to 839, the choice of the antenna once a frame was received. The two RSSI
  values are signed.
\<close>

definition choose_antenna :: "config \<Rightarrow> tx \<Rightarrow> ANTENNA" where
  "choose_antenna cfg s =
     (if USE_ANTENNA1 cfg \<and> USE_ANTENNA2 cfg then
        (if link_rx1_status s = link_rx2_status s then
           (if sint (last_rx_rssi1 (stats s)) > sint (last_rx_rssi2 (stats s))
            then ANTENNA_1 else ANTENNA_2)
         else if link_rx1_status s = RX_STATUS_VALID then ANTENNA_1
         else if link_rx2_status s = RX_STATUS_VALID then ANTENNA_2
         else
           (if sint (last_rx_rssi1 (stats s)) > sint (last_rx_rssi2 (stats s))
            then ANTENNA_1 else ANTENNA_2))
      else if USE_ANTENNA2 cfg then ANTENNA_2
      else ANTENNA_1)"

text \<open>
  Lines 850 to 874, the connection state machine; \<open>valid\<close> is
  \<^verbatim>\<open>valid_frame_received\<close>. The sync counter is 8 bits wide and is compared as an
  integer.
\<close>

definition connection_update :: "config \<Rightarrow> bool \<Rightarrow> tx \<Rightarrow> tx" where
  "connection_update cfg valid s =
     (let s1 =
            (if valid then
               (let sa =
                      (case connect_state s of
                         CONNECT_STATE_LISTEN \<Rightarrow>
                           s\<lparr> connect_state := CONNECT_STATE_SYNC, connect_sync_cnt := 0 \<rparr>
                       | CONNECT_STATE_SYNC \<Rightarrow>
                           (let sb = s\<lparr> connect_sync_cnt := connect_sync_cnt s + 1 \<rparr> in
                            if unat (connect_sync_cnt sb) \<ge> CONNECT_SYNC_CNT cfg
                            then sb\<lparr> connect_state := CONNECT_STATE_CONNECTED \<rparr>
                            else sb)
                       | CONNECT_STATE_CONNECTED \<Rightarrow>
                           s\<lparr> connect_state := CONNECT_STATE_CONNECTED \<rparr>)
                in sa\<lparr> connect_tmo_cnt := CONNECT_TMO_SYSTICKS cfg \<rparr>)
             else s);
          s2 = (if connected s1 \<and> connect_tmo_cnt s1 = 0
                then s1\<lparr> connect_state := CONNECT_STATE_LISTEN \<rparr> else s1)
      in if connected s2 \<and> \<not> valid then s2\<lparr> connect_sync_cnt := 0 \<rparr> else s2)"

text \<open>Lines 797 to 887, the pre-transmit step.\<close>

definition pre_transmit :: "config \<Rightarrow> tx \<Rightarrow> tx" where
  "pre_transmit cfg s =
     (if \<not> doPreTransmit s then s
      else
        (let s0 = s\<lparr> doPreTransmit := False \<rparr>;
             valid = valid_frame_received cfg s0;
             s1 = (if frame_received cfg s0
                   then handle_receive cfg (choose_antenna cfg s0) s0
                   else handle_receive_none s0);
             s2 = s1\<lparr> txstats_fhss_curr_i := fhss_curr_i s1,
                      txstats_rx1_valid :=
                        (rx_status_val (link_rx1_status s1) > rx_status_val RX_STATUS_INVALID),
                      txstats_rx2_valid :=
                        (rx_status_val (link_rx2_status s1) > rx_status_val RX_STATUS_INVALID) \<rparr>;
             s3 = connection_update cfg valid s2;
             s4 = s3\<lparr> link_state := LINK_STATE_TRANSMIT,
                      link_rx1_status := RX_STATUS_NONE,
                      link_rx2_status := RX_STATUS_NONE \<rparr>;
             s5 = s4\<lparr> tick_1hz_commensurate :=
                        DECc cfg (tick_1hz_commensurate s4) (frame_rate_hz cfg) \<rparr>;
             s6 = (if tick_1hz_commensurate s5 = 0 then call Txstats_Update1Hz s5 else s5);
             s7 = (if \<not> connected s6 then s6\<lparr> stats := stats_Clear cfg (stats s6) \<rparr> else s6)
         in call Txstats_Next s7))"

text \<open>
  What the surroundings deliver to one pass of the loop: the system tick flag, the
  interrupts the two modems raised since the pass before (status word and receive
  buffer), what \<^verbatim>\<open>do_receive\<close> would read, bytes newly arrived at the serial port, new
  channel data from the selected channel source, the configured channel order, a
  command of the handset, and whether that command changes a receiver parameter.
\<close>

record env =
  doSysTask :: bool
  dio1 :: "(u16 \<times> u8 list) option"
  dio2 :: "(u16 \<times> u8 list) option"
  rx_read1 :: rx_read
  rx_read2 :: rx_read
  serial_arrived :: "u8 list"
  channels_updated :: "tRcData option"
  Setup_Tx_ChannelOrder :: u8
  mbridge_cmd :: "MBRIDGE_CMD option"
  rx_param_changed :: bool

text \<open>The interrupt handlers run between two passes of the loop.\<close>

definition interrupts :: "config \<Rightarrow> env \<Rightarrow> tx \<Rightarrow> tx" where
  "interrupts cfg e s =
     (let s1 = (case dio1 e of
                  None \<Rightarrow> s
                | Some (irq, buf) \<Rightarrow> s\<lparr> irq_status := SX_DIO_EXTI_IRQHandler cfg irq buf \<rparr>);
          s2 = (case dio2 e of
                  None \<Rightarrow> s1
                | Some (irq, buf) \<Rightarrow> s1\<lparr> irq2_status := SX2_DIO_EXTI_IRQHandler cfg irq buf \<rparr>)
      in s2\<lparr> serial_rx := serial_rx s2 @ serial_arrived e \<rparr>)"

text \<open>Lines 894 to 966: new channel data is reordered in place.\<close>

definition channels_handling :: "env \<Rightarrow> tx \<Rightarrow> tx" where
  "channels_handling e s =
     (case channels_updated e of
        None \<Rightarrow> s
      | Some rc \<Rightarrow>
          (let p = update_channels (Setup_Tx_ChannelOrder e) (channelOrder s, rc)
           in s\<lparr> channelOrder := fst p, rcData := snd p \<rparr>))"

text \<open>
  Lines 921 to 936, the commands of the handset. \<^verbatim>\<open>PARAM_STORE\<close> is handled in this
  file. Modelled from the spec: a \<^verbatim>\<open>PARAM_SET\<close> that changes a receiver parameter sets
  \<^verbatim>\<open>setup_rx_param_changed\<close> (the handler \<^verbatim>\<open>mbridge_do_ParamSet\<close> is not in the sources).
  The other commands only send to the handset.
\<close>

definition command_handling :: "env \<Rightarrow> tx \<Rightarrow> tx" where
  "command_handling e s =
     (case mbridge_cmd e of
        None \<Rightarrow> s
      | Some MBRIDGE_CMD_PARAM_STORE \<Rightarrow>
          s\<lparr> transmit_frame_type := TRANSMIT_FRAME_TYPE_CMD_STORE_RX_PARAMS,
             whileTransmit := WhileTransmit_SetTask WHILE_TASK_STORE_PARAMS (whileTransmit s) \<rparr>
      | Some MBRIDGE_CMD_PARAM_SET \<Rightarrow>
          s\<lparr> setup_rx_param_changed := (setup_rx_param_changed s \<or> rx_param_changed e) \<rparr>
      | Some _ \<Rightarrow> s)"

definition mavlink_handling :: "config \<Rightarrow> tx \<Rightarrow> tx" where
  "mavlink_handling cfg s =
     (let p = mavlink_Do cfg (serial_rx s, mavlink_rx s)
      in s\<lparr> serial_rx := fst p, mavlink_rx := snd p \<rparr>)"

text \<open>One pass of the \<^verbatim>\<open>while (1)\<close> loop of \<^verbatim>\<open>main_main\<close>.\<close>

text \<open>Lines 890 to 975, the rest of a pass, up to \<^verbatim>\<open>whileTransmit.Do\<close>.\<close>

definition other_handling :: "config \<Rightarrow> env \<Rightarrow> tx \<Rightarrow> tx" where
  "other_handling cfg e s =
     (let s1 = channels_handling e s;
          s2 = command_handling e s1;
          s3 = mavlink_handling cfg s2
      in s3\<lparr> whileTransmit := WhileTransmit_Do (whileTransmit s3) \<rparr>)"

definition main_loop_step :: "config \<Rightarrow> env \<Rightarrow> tx \<Rightarrow> tx option" where
  "main_loop_step cfg e s =
     (let s1 = interrupts cfg e s;
          s2 = (if doSysTask e then sys_task cfg s1 else s1);
          s3 = link_state_switch cfg s2
      in case irq_handling cfg (rx_read1 e) s3 of
           None \<Rightarrow> None
         | Some s4 \<Rightarrow>
             (case irq2_handling cfg (rx_read2 e) s4 of
                None \<Rightarrow> None
              | Some s5 \<Rightarrow> Some (other_handling cfg e (pre_transmit cfg s5))))"

text \<open>A run of the loop over the passes' inputs; it ends where a pass does not return.\<close>

fun main_loop :: "config \<Rightarrow> env list \<Rightarrow> tx \<Rightarrow> tx option" where
  "main_loop cfg [] s = Some s"
| "main_loop cfg (e # es) s =
     (case main_loop_step cfg e s of None \<Rightarrow> None | Some s' \<Rightarrow> main_loop cfg es s')"

subsection \<open>Parts of a pass\<close>

text \<open>
  The first half of a pass, lines 649 to 794: interrupts, system tick, the switch on the
  link state and the causes of the two modems. It ends in the state in which the pass
  reaches the pre-transmit step, or in a blink loop.
\<close>

definition sx_handling :: "config \<Rightarrow> env \<Rightarrow> tx \<Rightarrow> tx option" where
  "sx_handling cfg e s =
     (let s1 = interrupts cfg e s;
          s2 = (if doSysTask e then sys_task cfg s1 else s1);
          s3 = link_state_switch cfg s2
      in case irq_handling cfg (rx_read1 e) s3 of
           None \<Rightarrow> None
         | Some s4 \<Rightarrow> irq2_handling cfg (rx_read2 e) s4)"

text \<open>
  The frame tick falls into a pass: the pre-transmit step runs in it, because the flag
  is still set from before or because the system tick of this pass counts \<^verbatim>\<open>tx_tick\<close> to
  zero.
\<close>

definition frame_tick :: "config \<Rightarrow> env \<Rightarrow> tx \<Rightarrow> bool" where
  "frame_tick cfg e s =
     (doPreTransmit s
      \<or> (doSysTask e \<and> DECc cfg (tx_tick s) (frame_rate_systicks cfg) = 0))"

text \<open>A run of passes into none of which the frame tick falls.\<close>

fun no_frame_tick :: "config \<Rightarrow> env list \<Rightarrow> tx \<Rightarrow> bool" where
  "no_frame_tick cfg [] s = True"
| "no_frame_tick cfg (e # es) s =
     (\<not> frame_tick cfg e s
      \<and> (case main_loop_step cfg e s of
            None \<Rightarrow> True
          | Some s' \<Rightarrow> no_frame_tick cfg es s'))"

text \<open>
  The status word a modem's slot holds when the causes are handled in a pass: what the
  interrupt handler left there, or the old value when no interrupt came.
\<close>

definition slot1 :: "config \<Rightarrow> env \<Rightarrow> tx \<Rightarrow> u16" where
  "slot1 cfg e s = irq_status (interrupts cfg e s)"

definition slot2 :: "config \<Rightarrow> env \<Rightarrow> tx \<Rightarrow> u16" where
  "slot2 cfg e s = irq2_status (interrupts cfg e s)"

text \<open>
  A status word that reports no end of transmission, and no reception unless together
  with the timeout.
\<close>

definition no_done :: "config \<Rightarrow> u16 \<Rightarrow> bool" where
  "no_done cfg w =
     (w AND SX12xx_IRQ_TX_DONE cfg = 0
      \<and> (w AND SX12xx_IRQ_TIMEOUT cfg \<noteq> 0 \<or> w AND SX12xx_IRQ_RX_DONE cfg = 0))"



subsection \<open>Runs of the connection state machine\<close>

text \<open>
  The two places that write the connection variables, as events: the system tick, and
  the connection lines of a pre-transmit step with the given \<^verbatim>\<open>valid_frame_received\<close>.
\<close>

datatype conn_event = SysTick | PreTransmit bool

fun conn_step :: "config \<Rightarrow> conn_event \<Rightarrow> tx \<Rightarrow> tx" where
  "conn_step cfg SysTick s = sys_task cfg s"
| "conn_step cfg (PreTransmit valid) s = connection_update cfg valid s"

fun conn_run :: "config \<Rightarrow> conn_event list \<Rightarrow> tx \<Rightarrow> tx" where
  "conn_run cfg [] s = s"
| "conn_run cfg (ev # evs) s = conn_run cfg evs (conn_step cfg ev s)"

subsection \<open>Observations on frames and calls\<close>

text \<open>
  A received frame is a command frame that carries the receiver's setup data or its
  acknowledgement: the two cases of \<^verbatim>\<open>process_received_cmd_rx_frame\<close>.
\<close>

definition carries_ack :: "config \<Rightarrow> tRxFrame \<Rightarrow> bool" where
  "carries_ack cfg f =
     (status_frame_type f \<noteq> FRAME_TYPE_RX cfg
      \<and> (frame_payload f ! 0 = FRAME_CMD_RX_SETUPDATA cfg
         \<or> frame_payload f ! 0 = FRAME_CMD_RX_ACK cfg))"

text \<open>The calls that pack a command frame, and the calls that read or write serial bytes.\<close>

fun is_cmd_pack :: "call \<Rightarrow> bool" where
  "is_cmd_pack (Pack_txcmd_cmd_frame fs rc c) = True"
| "is_cmd_pack (Pack_txcmd_set_rxparams_frame fs rc) = True"
| "is_cmd_pack c = False"

fun is_getc :: "call \<Rightarrow> bool" where
  "is_getc Serial_getc = True"
| "is_getc Mavlink_getc = True"
| "is_getc c = False"

fun is_putc :: "call \<Rightarrow> bool" where
  "is_putc (Serial_putc c) = True"
| "is_putc (Mavlink_putc c) = True"
| "is_putc c = False"

text \<open>The calls a function has added to the trace of the state it started from.\<close>

definition new_calls :: "tx \<Rightarrow> tx \<Rightarrow> call list" where
  "new_calls s s' = drop (length (calls s)) (calls s')"

subsection \<open>Concrete values for runs\<close>

text \<open>
  A configuration with the cause masks of the SX1280, both antennas, a sync threshold of
  2 and simple stand-ins for the collaborators.
\<close>

definition cfg0 :: config where
  "cfg0 = \<lparr> SX12xx_IRQ_TX_DONE = 0x0001, SX12xx_IRQ_RX_DONE = 0x0002,
            SX12xx_IRQ_TIMEOUT = 0x4000, FrameSyncWord = 0x3412,
            CONNECT_SYNC_CNT = 2, CONNECT_TMO_SYSTICKS = 500,
            USE_ANTENNA1 = True, USE_ANTENNA2 = True,
            FhssNum = 24, FRAME_TX_PAYLOAD_LEN = 4,
            FRAME_TYPE_RX = 0, FRAME_CMD_RX_SETUPDATA = 2, FRAME_CMD_RX_ACK = 3,
            FRAME_CMD_GET_RX_SETUPDATA = 1, FRAME_CMD_STORE_RX_PARAMS = 4,
            Rx_SerialLinkMode_MAVLINK = False, Tx_SerialLinkMode_MAVLINK = False,
            Tx_SerialDestination = SERIAL_DESTINATION_SERIAL_PORT,
            frame_rate_systicks = 20, frame_rate_hz = 50,
            DECc = (\<lambda>a period. if a = 0 then period - 1 else a - 1),
            stats_Clear = (\<lambda>st. st),
            stats_GetLastRxRssi = (\<lambda>st. last_rx_rssi1 st),
            rssi_i8_from_u7 = (\<lambda>r. - r),
            txstats_GetLQ = (\<lambda>cs. 0),
            txstats_GetLQ_serial_data = (\<lambda>cs. 0),
            mavlink_flush = (\<lambda>q. []),
            mavlink_Do = (\<lambda>p. p) \<rparr>"

definition frame0 :: tRxFrame where
  "frame0 = \<lparr> status_seq_no = 7, status_ack = 1, status_frame_type = 0,
              status_antenna = 0, status_transmit_antenna = 0, status_rssi_u7 = 70,
              status_LQ = 100, status_LQ_serial_data = 100, status_payload_len = 2,
              frame_payload = [0x41, 0x42, 0, 0] \<rparr>"

definition stats0 :: tStats where
  "stats0 = \<lparr> transmit_seq_no = 0, received_seq_no_last = 0, received_ack_last = 0,
              last_rx_antenna = ANTENNA_1, last_tx_antenna = ANTENNA_1,
              last_rx_rssi1 = - 70, last_rx_rssi2 = - 65,
              last_rx_snr1 = 0, last_rx_snr2 = 0,
              received_antenna = 0, received_transmit_antenna = 0, received_rssi = 0,
              received_LQ = 0, received_LQ_serial_data = 0 \<rparr>"

definition rx_read0 :: rx_read where
  "rx_read0 = \<lparr> read_frame = frame0, check_res = CHECK_OK,
                packet_rssi = - 70, packet_snr = 10 \<rparr>"

definition wt0 :: WhileTransmit where
  "wt0 = \<lparr> tasks = 0, do_cnt = 0, dbg = [] \<rparr>"

text \<open>A pass in which the surroundings deliver nothing.\<close>

definition env0 :: env where
  "env0 = \<lparr> doSysTask = False, dio1 = None, dio2 = None,
            rx_read1 = rx_read0, rx_read2 = rx_read0, serial_arrived = [],
            channels_updated = None, Setup_Tx_ChannelOrder = 0,
            mbridge_cmd = None, rx_param_changed = False \<rparr>"

text \<open>The state right after a successful start.\<close>

definition tx0 :: tx where
  "tx0 = \<lparr> irq_status = 0, irq2_status = 0,
           link_rx1_status = RX_STATUS_NONE, link_rx2_status = RX_STATUS_NONE,
           transmit_frame_type = TRANSMIT_FRAME_TYPE_CMD_GET_RX_SETUPDATA,
           payload = [0, 0, 0, 0], payload_len = 0,
           tx_tick = 0, tick_1hz_commensurate = 0, doPreTransmit = False,
           link_state = LINK_STATE_IDLE, connect_state = CONNECT_STATE_LISTEN,
           connect_tmo_cnt = 0, connect_sync_cnt = 0,
           setup_rx_param_changed = False, stats = stats0,
           txstats_fhss_curr_i = 0, txstats_rx1_valid = False, txstats_rx2_valid = False,
           fhss_curr_i = 0, rxFrame = frame0, rxFrame2 = frame0,
           rcData = \<lparr> ch = [1, 2, 3, 4] \<rparr>, channelOrder = ChannelOrder_new,
           whileTransmit = wt0, serialport = Some Serial,
           serial_rx = [0x61, 0x62], mavlink_rx = [], calls = [] \<rparr>"

text \<open>A pass with the system tick, and one in which modem 1 also reports the timeout.\<close>

definition env_tick :: env where
  "env_tick = env0\<lparr> doSysTask := True \<rparr>"

definition env_timeout :: env where
  "env_timeout = env0\<lparr> doSysTask := True, dio1 := Some (0x4000, []) \<rparr>"

text \<open>
  Not connected, the slot NORMAL, a changed receiver parameter pending, and three bytes
  left in the payload buffer from an earlier frame.
\<close>

definition tx_param_changed :: tx where
  "tx_param_changed =
     tx0\<lparr> transmit_frame_type := TRANSMIT_FRAME_TYPE_NORMAL,
          setup_rx_param_changed := True,
          payload := [9, 9, 9, 9], payload_len := 3 \<rparr>"





section \<open>Properties\<close>

subsection \<open>Sync word filter in the interrupt handlers\<close>

text \<open>
  C2. A received frame (the modem reports RX_DONE) whose first two buffer bytes differ
  from \<^verbatim>\<open>Config.FrameSyncWord\<close> leaves the slot \<^verbatim>\<open>irq_status\<close> (resp. \<^verbatim>\<open>irq2_status\<close>)
  equal to 0 on return of the handler, so no RX_DONE cause reaches the main loop.
\<close>

theorem isr_sync_word_mismatch_clears_slot:
  assumes "modem_irq AND SX12xx_IRQ_RX_DONE cfg \<noteq> 0"
    and "read_sync_word buf \<noteq> FrameSyncWord cfg"
  shows "SX_DIO_EXTI_IRQHandler cfg modem_irq buf = 0
       \<and> SX2_DIO_EXTI_IRQHandler cfg modem_irq buf = 0
       \<and> SX_DIO_EXTI_IRQHandler cfg modem_irq buf AND SX12xx_IRQ_RX_DONE cfg = 0
       \<and> SX2_DIO_EXTI_IRQHandler cfg modem_irq buf AND SX12xx_IRQ_RX_DONE cfg = 0"
  using assms by (simp add: SX_DIO_EXTI_IRQHandler_def SX2_DIO_EXTI_IRQHandler_def)

theorem isr_sync_word_mismatch_witness:
  "(0x0002 :: u16) AND SX12xx_IRQ_RX_DONE cfg0 \<noteq> 0
   \<and> read_sync_word [0x12, 0x35, 0x00] \<noteq> FrameSyncWord cfg0
   \<and> SX_DIO_EXTI_IRQHandler cfg0 0x0002 [0x12, 0x35, 0x00] = 0
   \<and> SX2_DIO_EXTI_IRQHandler cfg0 0x0002 [0x12, 0x35, 0x00] = 0"
proof -
  have a: "(0x0002 :: u16) AND SX12xx_IRQ_RX_DONE cfg0 \<noteq> 0"
    by (simp add: cfg0_def)
  have b: "read_sync_word [0x12, 0x35, 0x00] \<noteq> FrameSyncWord cfg0"
    by (simp add: cfg0_def read_sync_word_def)
  from isr_sync_word_mismatch_clears_slot [OF a b] a b show ?thesis by simp
qed

subsection \<open>Channel order\<close>

text \<open>
  C4. The sequence AETR, ETAR, AETR of \<^verbatim>\<open>Set\<close> and \<^verbatim>\<open>Apply\<close> is claimed to end with an
  identity application, so that the channels are those of one ETAR reorder. In the code
  the last \<^verbatim>\<open>Set\<close> stores the order AETR and leaves the ETAR map in place: on the
  channels 1, 2, 3, 4 the three applications in a row give 2, 3, 1, 4 (the ETAR reorder
  twice), where one ETAR reorder gives 3, 1, 2, 4; and the object, with order AETR set,
  still reorders fresh channel data.
\<close>

theorem channel_order_aetr_after_etar_keeps_map:
  "snd (update_channels CHANNEL_ORDER_AETR
          (update_channels CHANNEL_ORDER_ETAR
            (update_channels CHANNEL_ORDER_AETR (ChannelOrder_new, \<lparr> ch = [1, 2, 3, 4] \<rparr>))))
     = \<lparr> ch = [2, 3, 1, 4] \<rparr>
   \<and> snd (update_channels CHANNEL_ORDER_ETAR
            (update_channels CHANNEL_ORDER_AETR (ChannelOrder_new, \<lparr> ch = [1, 2, 3, 4] \<rparr>)))
     = \<lparr> ch = [3, 1, 2, 4] \<rparr>
   \<and> fst (update_channels CHANNEL_ORDER_AETR
            (update_channels CHANNEL_ORDER_ETAR
              (update_channels CHANNEL_ORDER_AETR (ChannelOrder_new, rc))))
     = \<lparr> channel_order = CHANNEL_ORDER_AETR, channel_map = [2, 0, 1, 3] \<rparr>
   \<and> ChannelOrder_Apply \<lparr> channel_order = CHANNEL_ORDER_AETR, channel_map = [2, 0, 1, 3] \<rparr>
        \<lparr> ch = [1, 2, 3, 4] \<rparr>
     = \<lparr> ch = [3, 1, 2, 4] \<rparr>"
  by (simp add: update_channels_def ChannelOrder_Set_def ChannelOrder_Apply_def
      ChannelOrder_new_def CHANNEL_ORDER_AETR_def CHANNEL_ORDER_ETAR_def
      CHANNEL_ORDER_TAER_def UINT8_MAX_def Let_def)

subsection \<open>Deferred tasks\<close>

lemma clear_store_bit: "ucast (ucast (ucast (t::u8) AND (- 2::u16)) :: u8) AND (1::u16) = 0"
  by (rule bit_word_eqI) (auto simp add: bit_simps)

lemma Do_not_pending:
  "\<not> store_pending w \<Longrightarrow>
     tasks_run (WhileTransmit_Do w) = tasks_run w \<and> \<not> store_pending (WhileTransmit_Do w)"
  by (simp add: store_pending_def WhileTransmit_Do_def WhileTransmit_handle_tasks_def
      tasks_run_def Let_def)

lemma Do_pending:
  "store_pending w \<Longrightarrow>
     (tasks_run (WhileTransmit_Do w) = tasks_run w \<and> store_pending (WhileTransmit_Do w))
   \<or> (tasks_run (WhileTransmit_Do w) = tasks_run w + 1 \<and> \<not> store_pending (WhileTransmit_Do w))"
  by (auto simp add: store_pending_def WhileTransmit_Do_def WhileTransmit_handle_tasks_def
      tasks_run_def Let_def WHILE_TASK_STORE_PARAMS_def clear_store_bit)

lemma Trigger_keeps:
  "tasks_run (WhileTransmit_Trigger w) = tasks_run w
   \<and> store_pending (WhileTransmit_Trigger w) = store_pending w"
  by (simp add: store_pending_def WhileTransmit_Trigger_def tasks_run_def)

lemma run_not_pending:
  "\<not> store_pending w \<Longrightarrow> set cs \<subseteq> {Trigger, Do} \<Longrightarrow> tasks_run (wt_run cs w) = tasks_run w"
proof (induction cs arbitrary: w)
  case Nil
  then show ?case by simp
next
  case (Cons c cs)
  from Cons.prems have c: "c = Trigger \<or> c = Do" and cs: "set cs \<subseteq> {Trigger, Do}" by auto
  from c show ?case
  proof
    assume "c = Trigger"
    with Cons.IH [of "WhileTransmit_Trigger w"] Cons.prems(1) cs Trigger_keeps [of w]
    show ?thesis by simp
  next
    assume "c = Do"
    with Cons.IH [of "WhileTransmit_Do w"] Do_not_pending [OF Cons.prems(1)] cs
    show ?thesis by simp
  qed
qed

lemma run_at_most_once:
  "set cs \<subseteq> {Trigger, Do} \<Longrightarrow> tasks_run (wt_run cs w) \<le> tasks_run w + 1"
proof (induction cs arbitrary: w)
  case Nil
  then show ?case by simp
next
  case (Cons c cs)
  from Cons.prems have c: "c = Trigger \<or> c = Do" and cs: "set cs \<subseteq> {Trigger, Do}" by auto
  from c show ?case
  proof
    assume "c = Trigger"
    with Cons.IH [OF cs, of "WhileTransmit_Trigger w"] Trigger_keeps [of w]
    show ?thesis by simp
  next
    assume d: "c = Do"
    show ?thesis
    proof (cases "store_pending w")
      case False
      with run_not_pending [OF False Cons.prems] show ?thesis by simp
    next
      case True
      from Do_pending [OF True] show ?thesis
      proof
        assume "tasks_run (WhileTransmit_Do w) = tasks_run w \<and> store_pending (WhileTransmit_Do w)"
        with Cons.IH [OF cs, of "WhileTransmit_Do w"] d show ?thesis by simp
      next
        assume "tasks_run (WhileTransmit_Do w) = tasks_run w + 1
                \<and> \<not> store_pending (WhileTransmit_Do w)"
        with run_not_pending [of "WhileTransmit_Do w" cs] cs d show ?thesis by simp
      qed
    qed
  qed
qed

lemma run_Do_idle: "do_cnt w = 0 \<Longrightarrow> wt_run (replicate m Do) w = w"
  by (induction m) (simp_all add: WhileTransmit_Do_def)

lemma wt_run_append: "wt_run (as @ bs) w = wt_run bs (wt_run as w)"
  by (induction as arbitrary: w) simp_all

lemma pending_tasks_nz: "store_pending w \<Longrightarrow> tasks w \<noteq> 0"
  by (auto simp add: store_pending_def)

lemma five_Do:
  assumes "store_pending w"
  shows "tasks_run (wt_run [Trigger, Do, Do, Do, Do, Do] w) = tasks_run w + 1
       \<and> do_cnt (wt_run [Trigger, Do, Do, Do, Do, Do] w) = 0"
  using assms pending_tasks_nz [OF assms]
  by (simp add: store_pending_def WhileTransmit_Do_def WhileTransmit_Trigger_def
      WhileTransmit_handle_tasks_def tasks_run_def Let_def WHILE_TASK_STORE_PARAMS_def)

lemma few_Do:
  assumes "store_pending w" and "n < 5"
  shows "tasks_run (wt_run (Trigger # replicate n Do) w) = tasks_run w"
proof -
  from assms(2) have "n = 0 \<or> n = 1 \<or> n = 2 \<or> n = 3 \<or> n = 4" by arith
  then have "replicate n Do \<in> {[], [Do], [Do, Do], [Do, Do, Do], [Do, Do, Do, Do]}"
    by (auto simp add: numeral_eq_Suc)
  then show ?thesis
    using pending_tasks_nz [OF assms(1)]
    by (auto simp add: WhileTransmit_Do_def WhileTransmit_Trigger_def
        WhileTransmit_handle_tasks_def tasks_run_def Let_def)
qed

lemma run_trigger_Do:
  assumes "store_pending w"
  shows "tasks_run (wt_run (Trigger # replicate n Do) w)
         = tasks_run w + (if 5 \<le> n then 1 else 0)"
proof (cases "5 \<le> n")
  case False
  with few_Do [OF assms, of n] show ?thesis by simp
next
  case True
  then obtain m where n: "n = 5 + m" using le_Suc_ex by blast
  have "replicate 5 Do = [Do, Do, Do, Do, Do]" by (simp add: numeral_eq_Suc)
  then have sp: "Trigger # replicate n Do = [Trigger, Do, Do, Do, Do, Do] @ replicate m Do"
    by (simp add: n replicate_add)
  from five_Do [OF assms] run_Do_idle [of "wt_run [Trigger, Do, Do, Do, Do, Do] w" m] True
  show ?thesis unfolding sp wt_run_append by simp
qed

lemma Do_at_most_one: "tasks_run (WhileTransmit_Do w) \<le> tasks_run w + 1"
  by (simp add: WhileTransmit_Do_def WhileTransmit_handle_tasks_def tasks_run_def Let_def)

lemma Do_only_at_zero:
  "tasks_run (WhileTransmit_Do w) \<noteq> tasks_run w \<Longrightarrow>
     do_cnt w = 1 \<and> do_cnt (WhileTransmit_Do w) = 0"
  by (auto simp add: WhileTransmit_Do_def WhileTransmit_handle_tasks_def tasks_run_def Let_def
      split: if_splits)

lemma SetTask_latches: "store_pending (WhileTransmit_SetTask WHILE_TASK_STORE_PARAMS w)"
proof -
  have "ucast (ucast (ucast (tasks w) OR (1::u16)) :: u8) AND (1::u16) \<noteq> 0"
    by (simp add: bit_eq_iff bit_simps) (rule exI [of _ 0], simp)
  then show ?thesis
    by (simp add: store_pending_def WhileTransmit_SetTask_def WHILE_TASK_STORE_PARAMS_def)
qed

subsection \<open>Antenna arbiter\<close>

text \<open>
  C5. With both antennas in use: when exactly one of the two receive statuses is Valid,
  a frame counts as received and the arbiter elects that antenna; when the two statuses
  are equal, it elects antenna 1 if its last RSSI is strictly higher and antenna 2
  otherwise, also on a tie; with both Valid at \<open>- 70\<close> and \<open>- 65\<close> dBm it elects antenna 2.
  (The arbiter runs once a frame was received; with both statuses None the step calls
  \<^verbatim>\<open>handle_receive_none\<close> and elects no antenna.)
\<close>

theorem antenna_arbiter_diversity:
  assumes "USE_ANTENNA1 cfg" and "USE_ANTENNA2 cfg"
  shows "(link_rx1_status s = RX_STATUS_VALID \<and> link_rx2_status s \<noteq> RX_STATUS_VALID
            \<longrightarrow> frame_received cfg s \<and> choose_antenna cfg s = ANTENNA_1)
       \<and> (link_rx2_status s = RX_STATUS_VALID \<and> link_rx1_status s \<noteq> RX_STATUS_VALID
            \<longrightarrow> frame_received cfg s \<and> choose_antenna cfg s = ANTENNA_2)
       \<and> (link_rx1_status s = link_rx2_status s
            \<longrightarrow> choose_antenna cfg s =
                 (if sint (last_rx_rssi1 (stats s)) > sint (last_rx_rssi2 (stats s))
                  then ANTENNA_1 else ANTENNA_2))
       \<and> (link_rx1_status s = RX_STATUS_VALID \<and> link_rx2_status s = RX_STATUS_VALID
          \<and> sint (last_rx_rssi1 (stats s)) = - 70 \<and> sint (last_rx_rssi2 (stats s)) = - 65
            \<longrightarrow> frame_received cfg s \<and> choose_antenna cfg s = ANTENNA_2)
       \<and> frame_received cfg s
         = (link_rx1_status s \<noteq> RX_STATUS_NONE \<or> link_rx2_status s \<noteq> RX_STATUS_NONE)"
  using assms
  by (cases "link_rx1_status s"; cases "link_rx2_status s")
     (auto simp add: choose_antenna_def frame_received_def)

theorem antenna_arbiter_witness:
  "USE_ANTENNA1 cfg0 \<and> USE_ANTENNA2 cfg0
   \<and> sint (last_rx_rssi1 stats0) = - 70 \<and> sint (last_rx_rssi2 stats0) = - 65
   \<and> choose_antenna cfg0
       (tx0\<lparr> link_rx1_status := RX_STATUS_VALID, link_rx2_status := RX_STATUS_VALID \<rparr>)
     = ANTENNA_2
   \<and> choose_antenna cfg0
       (tx0\<lparr> link_rx1_status := RX_STATUS_VALID, link_rx2_status := RX_STATUS_INVALID \<rparr>)
     = ANTENNA_1
   \<and> choose_antenna cfg0
       (tx0\<lparr> link_rx1_status := RX_STATUS_NONE, link_rx2_status := RX_STATUS_VALID \<rparr>)
     = ANTENNA_2"
proof -
  have u: "USE_ANTENNA1 cfg0" "USE_ANTENNA2 cfg0" by (simp_all add: cfg0_def)
  have r: "sint (last_rx_rssi1 stats0) = - 70" "sint (last_rx_rssi2 stats0) = - 65"
    by (simp_all add: stats0_def)
  from antenna_arbiter_diversity [OF u,
         of "tx0\<lparr> link_rx1_status := RX_STATUS_VALID, link_rx2_status := RX_STATUS_VALID \<rparr>"]
       antenna_arbiter_diversity [OF u,
         of "tx0\<lparr> link_rx1_status := RX_STATUS_VALID, link_rx2_status := RX_STATUS_INVALID \<rparr>"]
       antenna_arbiter_diversity [OF u,
         of "tx0\<lparr> link_rx1_status := RX_STATUS_NONE, link_rx2_status := RX_STATUS_VALID \<rparr>"]
       u r
  show ?thesis by (simp add: tx0_def)
qed

subsection \<open>Receiving an invalid frame\<close>

lemma handle_receive_invalid_effect:
  assumes "(if ant = ANTENNA_1 then link_rx1_status s else link_rx2_status s) = RX_STATUS_INVALID"
  shows "received_seq_no_last (stats (handle_receive cfg ant s)) = UINT8_MAX
       \<and> received_ack_last (stats (handle_receive cfg ant s)) = 0
       \<and> last_rx_antenna (stats (handle_receive cfg ant s)) = ant
       \<and> calls (handle_receive cfg ant s) = calls s @ [Txstats_doFrameReceived]
       \<and> new_calls s (handle_receive cfg ant s) = [Txstats_doFrameReceived]
       \<and> filter is_putc (new_calls s (handle_receive cfg ant s)) = []"
  using assms by (simp add: handle_receive_def call_def new_calls_def Let_def)

subsection \<open>Fields a function leaves alone\<close>

lemma read_payload_keeps:
  "irq_status (read_payload cfg n s) = irq_status s
   \<and> irq2_status (read_payload cfg n s) = irq2_status s
   \<and> link_rx1_status (read_payload cfg n s) = link_rx1_status s
   \<and> link_rx2_status (read_payload cfg n s) = link_rx2_status s
   \<and> transmit_frame_type (read_payload cfg n s) = transmit_frame_type s
   \<and> doPreTransmit (read_payload cfg n s) = doPreTransmit s
   \<and> link_state (read_payload cfg n s) = link_state s
   \<and> connect_state (read_payload cfg n s) = connect_state s
   \<and> connect_tmo_cnt (read_payload cfg n s) = connect_tmo_cnt s
   \<and> connect_sync_cnt (read_payload cfg n s) = connect_sync_cnt s
   \<and> setup_rx_param_changed (read_payload cfg n s) = setup_rx_param_changed s
   \<and> stats (read_payload cfg n s) = stats s
   \<and> fhss_curr_i (read_payload cfg n s) = fhss_curr_i s
   \<and> rxFrame (read_payload cfg n s) = rxFrame s
   \<and> rxFrame2 (read_payload cfg n s) = rxFrame2 s
   \<and> rcData (read_payload cfg n s) = rcData s
   \<and> whileTransmit (read_payload cfg n s) = whileTransmit s
   \<and> serialport (read_payload cfg n s) = serialport s"
  by (induction n arbitrary: s) (simp_all add: call_def split: list.splits)

lemma process_transmit_frame_keeps:
  "irq_status (process_transmit_frame cfg ant a s) = irq_status s
   \<and> irq2_status (process_transmit_frame cfg ant a s) = irq2_status s
   \<and> link_rx1_status (process_transmit_frame cfg ant a s) = link_rx1_status s
   \<and> link_rx2_status (process_transmit_frame cfg ant a s) = link_rx2_status s
   \<and> doPreTransmit (process_transmit_frame cfg ant a s) = doPreTransmit s
   \<and> link_state (process_transmit_frame cfg ant a s) = link_state s
   \<and> connect_state (process_transmit_frame cfg ant a s) = connect_state s
   \<and> connect_tmo_cnt (process_transmit_frame cfg ant a s) = connect_tmo_cnt s
   \<and> connect_sync_cnt (process_transmit_frame cfg ant a s) = connect_sync_cnt s
   \<and> transmit_seq_no (stats (process_transmit_frame cfg ant a s)) = transmit_seq_no (stats s)
   \<and> fhss_curr_i (process_transmit_frame cfg ant a s) = fhss_curr_i s
   \<and> rxFrame (process_transmit_frame cfg ant a s) = rxFrame s
   \<and> rxFrame2 (process_transmit_frame cfg ant a s) = rxFrame2 s
   \<and> whileTransmit (process_transmit_frame cfg ant a s) = whileTransmit s
   \<and> transmit_frame_type (process_transmit_frame cfg ant a s) =
       (if setup_rx_param_changed s \<and> transmit_frame_type s = TRANSMIT_FRAME_TYPE_NORMAL
        then TRANSMIT_FRAME_TYPE_CMD_SET_RX_PARAMS else transmit_frame_type s)"
  by (simp add: process_transmit_frame_def pack_and_send_def collect_payload_def
      latch_rx_param_changed_def pack_tx_cmd_frame_def call_def Let_def read_payload_keeps
      split: TRANSMIT_FRAME_TYPE.splits)

lemma link_transmit_effect:
  "transmit_seq_no (stats (link_transmit cfg s)) = transmit_seq_no (stats s) + 1
   \<and> fhss_curr_i (link_transmit cfg s) = (fhss_curr_i s + 1) mod FhssNum cfg
   \<and> link_state (link_transmit cfg s) = LINK_STATE_TRANSMIT_WAIT
   \<and> irq_status (link_transmit cfg s) = 0
   \<and> irq2_status (link_transmit cfg s) = 0
   \<and> doPreTransmit (link_transmit cfg s) = doPreTransmit s
   \<and> link_rx1_status (link_transmit cfg s) = link_rx1_status s
   \<and> link_rx2_status (link_transmit cfg s) = link_rx2_status s
   \<and> rxFrame (link_transmit cfg s) = rxFrame s
   \<and> rxFrame2 (link_transmit cfg s) = rxFrame2 s
   \<and> transmit_frame_type (link_transmit cfg s) =
       (if setup_rx_param_changed s \<and> transmit_frame_type s = TRANSMIT_FRAME_TYPE_NORMAL
        then TRANSMIT_FRAME_TYPE_CMD_SET_RX_PARAMS else transmit_frame_type s)"
  by (simp add: link_transmit_def do_transmit_def fhss_HopToNext_def call_def Let_def
      process_transmit_frame_keeps)

lemma do_receive_keeps:
  "transmit_seq_no (stats (snd (do_receive ant r s))) = transmit_seq_no (stats s)
   \<and> fhss_curr_i (snd (do_receive ant r s)) = fhss_curr_i s
   \<and> transmit_frame_type (snd (do_receive ant r s)) = transmit_frame_type s
   \<and> link_state (snd (do_receive ant r s)) = link_state s
   \<and> irq_status (snd (do_receive ant r s)) = irq_status s
   \<and> irq2_status (snd (do_receive ant r s)) = irq2_status s
   \<and> doPreTransmit (snd (do_receive ant r s)) = doPreTransmit s"
  by (simp add: do_receive_def call_def Let_def)

lemma irq_handling_keeps:
  "irq_handling cfg r s = Some s' \<Longrightarrow>
     transmit_seq_no (stats s') = transmit_seq_no (stats s)
     \<and> fhss_curr_i s' = fhss_curr_i s
     \<and> transmit_frame_type s' = transmit_frame_type s
     \<and> doPreTransmit s' = doPreTransmit s
     \<and> irq2_status s' = irq2_status s"
  by (auto simp add: irq_handling_def Let_def do_receive_keeps split: if_splits)

lemma irq2_handling_keeps:
  "irq2_handling cfg r s = Some s' \<Longrightarrow>
     transmit_seq_no (stats s') = transmit_seq_no (stats s)
     \<and> fhss_curr_i s' = fhss_curr_i s
     \<and> transmit_frame_type s' = transmit_frame_type s
     \<and> doPreTransmit s' = doPreTransmit s
     \<and> irq_status s' = irq_status s"
  by (auto simp add: irq2_handling_def Let_def do_receive_keeps split: if_splits)

lemma irq_timeout:
  assumes "USE_ANTENNA1 cfg" "irq_status s AND SX12xx_IRQ_TIMEOUT cfg \<noteq> 0"
    "\<not> (link_state s = LINK_STATE_TRANSMIT_WAIT \<and> irq_status s AND SX12xx_IRQ_TX_DONE cfg \<noteq> 0)"
    "\<not> (link_state s = LINK_STATE_RECEIVE_WAIT \<and> irq_status s AND SX12xx_IRQ_RX_DONE cfg \<noteq> 0)"
  shows "irq_handling cfg r s =
           Some (s\<lparr> irq_status := 0, link_state := LINK_STATE_IDLE,
                    link_rx1_status := RX_STATUS_NONE, link_rx2_status := RX_STATUS_NONE \<rparr>)"
  using assms by (auto simp add: irq_handling_def Let_def)

lemma irq2_timeout:
  assumes "USE_ANTENNA2 cfg" "irq2_status s AND SX12xx_IRQ_TIMEOUT cfg \<noteq> 0"
    "\<not> (link_state s = LINK_STATE_TRANSMIT_WAIT \<and> irq2_status s AND SX12xx_IRQ_TX_DONE cfg \<noteq> 0)"
    "\<not> (link_state s = LINK_STATE_RECEIVE_WAIT \<and> irq2_status s AND SX12xx_IRQ_RX_DONE cfg \<noteq> 0)"
  shows "irq2_handling cfg r s =
           Some (s\<lparr> irq2_status := 0, link_state := LINK_STATE_IDLE,
                    link_rx1_status := RX_STATUS_NONE, link_rx2_status := RX_STATUS_NONE \<rparr>)"
  using assms by (auto simp add: irq2_handling_def Let_def)

subsection \<open>Timeout cause\<close>

text \<open>
  C6, as claimed: in every pass of the loop with the timeout bit set in \<^verbatim>\<open>irq_status\<close> the
  link state machine goes to Idle. It fails where the same status word also carries
  TX_DONE while the link waits for the end of the transmission: the TX_DONE handler runs
  first and clears the whole word, and the link goes on to Receive.
\<close>

theorem timeout_with_tx_done_goes_to_receive:
  "irq_status (tx0\<lparr> link_state := LINK_STATE_TRANSMIT_WAIT, irq_status := 0x4001 \<rparr>)
      AND SX12xx_IRQ_TIMEOUT cfg0 \<noteq> 0
   \<and> map_option link_state
       (irq_handling cfg0 rx_read0
          (tx0\<lparr> link_state := LINK_STATE_TRANSMIT_WAIT, irq_status := 0x4001 \<rparr>))
     = Some LINK_STATE_RECEIVE"
  by (simp add: irq_handling_def cfg0_def tx0_def Let_def)

text \<open>
  C6, amended. In every pass in which the timeout bit is set in \<^verbatim>\<open>irq_status\<close> (or
  \<^verbatim>\<open>irq2_status\<close>) when the causes of that modem are handled, and the status word is not
  taken first by TX_DONE in TransmitWait or by RX_DONE in ReceiveWait, the slot is
  cleared, the link state machine goes to Idle and both receive statuses are set to
  None. In Idle the switch on the link state does nothing, and without the frame tick
  the pre-transmit step does nothing: the transmission is not retried in the period.
\<close>

theorem timeout_returns_to_idle:
  "(USE_ANTENNA1 cfg \<and> irq_status s AND SX12xx_IRQ_TIMEOUT cfg \<noteq> 0
      \<and> \<not> (link_state s = LINK_STATE_TRANSMIT_WAIT
            \<and> irq_status s AND SX12xx_IRQ_TX_DONE cfg \<noteq> 0)
      \<and> \<not> (link_state s = LINK_STATE_RECEIVE_WAIT
            \<and> irq_status s AND SX12xx_IRQ_RX_DONE cfg \<noteq> 0)
     \<longrightarrow> irq_handling cfg r s =
           Some (s\<lparr> irq_status := 0, link_state := LINK_STATE_IDLE,
                    link_rx1_status := RX_STATUS_NONE, link_rx2_status := RX_STATUS_NONE \<rparr>))
   \<and> (USE_ANTENNA2 cfg \<and> irq2_status s AND SX12xx_IRQ_TIMEOUT cfg \<noteq> 0
      \<and> \<not> (link_state s = LINK_STATE_TRANSMIT_WAIT
            \<and> irq2_status s AND SX12xx_IRQ_TX_DONE cfg \<noteq> 0)
      \<and> \<not> (link_state s = LINK_STATE_RECEIVE_WAIT
            \<and> irq2_status s AND SX12xx_IRQ_RX_DONE cfg \<noteq> 0)
     \<longrightarrow> irq2_handling cfg r s =
           Some (s\<lparr> irq2_status := 0, link_state := LINK_STATE_IDLE,
                    link_rx1_status := RX_STATUS_NONE, link_rx2_status := RX_STATUS_NONE \<rparr>))
   \<and> (link_state s = LINK_STATE_IDLE \<longrightarrow> link_state_switch cfg s = s)
   \<and> (\<not> doPreTransmit s \<longrightarrow> pre_transmit cfg s = s)"
  using irq_timeout [of cfg s r] irq2_timeout [of cfg s r]
  by (simp add: link_state_switch_def pre_transmit_def)

theorem timeout_returns_to_idle_witness:
  "USE_ANTENNA1 cfg0
   \<and> irq_status (tx0\<lparr> link_state := LINK_STATE_TRANSMIT_WAIT, irq_status := 0x4000 \<rparr>)
        AND SX12xx_IRQ_TIMEOUT cfg0 \<noteq> 0
   \<and> irq_status (tx0\<lparr> link_state := LINK_STATE_TRANSMIT_WAIT, irq_status := 0x4000 \<rparr>)
        AND SX12xx_IRQ_TX_DONE cfg0 = 0
   \<and> map_option link_state
        (irq_handling cfg0 rx_read0
           (tx0\<lparr> link_state := LINK_STATE_TRANSMIT_WAIT, irq_status := 0x4000 \<rparr>))
      = Some LINK_STATE_IDLE
   \<and> map_option link_rx1_status
        (irq_handling cfg0 rx_read0
           (tx0\<lparr> link_state := LINK_STATE_TRANSMIT_WAIT, irq_status := 0x4000 \<rparr>))
      = Some RX_STATUS_NONE
   \<and> link_state_switch cfg0 (tx0\<lparr> link_state := LINK_STATE_IDLE \<rparr>)
      = tx0\<lparr> link_state := LINK_STATE_IDLE \<rparr>"
proof -
  let ?s = "tx0\<lparr> link_state := LINK_STATE_TRANSMIT_WAIT, irq_status := 0x4000 \<rparr>"
  have a: "USE_ANTENNA1 cfg0" by (simp add: cfg0_def)
  have b: "irq_status ?s AND SX12xx_IRQ_TIMEOUT cfg0 \<noteq> 0" by (simp add: cfg0_def)
  have c: "irq_status ?s AND SX12xx_IRQ_TX_DONE cfg0 = 0" by (simp add: cfg0_def)
  from timeout_returns_to_idle [of cfg0 ?s rx_read0]
       timeout_returns_to_idle [of cfg0 "tx0\<lparr> link_state := LINK_STATE_IDLE \<rparr>" rx_read0] a b c
  show ?thesis by simp
qed

subsection \<open>Payload of a normal frame while not connected\<close>

text \<open>
  C9, as claimed: while the connection state is not Connected, \<^verbatim>\<open>process_transmit_frame\<close>
  with \<^verbatim>\<open>transmit_frame_type\<close> NORMAL packs an empty payload with \<^verbatim>\<open>payload_len\<close> 0. It fails
  where a receiver parameter has changed: lines 319 to 322 latch SET_RX_PARAMS before the
  test of line 324, a command frame is packed, and \<^verbatim>\<open>payload\<close> and \<^verbatim>\<open>payload_len\<close> stay as
  they were.
\<close>

theorem changed_parameter_packs_command_frame:
  "\<not> connected tx_param_changed
   \<and> transmit_frame_type tx_param_changed = TRANSMIT_FRAME_TYPE_NORMAL
   \<and> payload_len (process_transmit_frame cfg0 ANTENNA_1 1 tx_param_changed) = 3
   \<and> payload (process_transmit_frame cfg0 ANTENNA_1 1 tx_param_changed) = [9, 9, 9, 9]
   \<and> map is_cmd_pack
        (new_calls tx_param_changed (process_transmit_frame cfg0 ANTENNA_1 1 tx_param_changed))
      = [True, False]"
  by (simp add: tx_param_changed_def tx0_def connected_def process_transmit_frame_def
      pack_and_send_def collect_payload_def latch_rx_param_changed_def pack_tx_cmd_frame_def
      call_def new_calls_def Let_def)

text \<open>
  C9, amended. While the connection state is not Connected, \<^verbatim>\<open>process_transmit_frame\<close> takes
  no byte from the serial port or the MAVLink handler (no \<^verbatim>\<open>getc\<close> among its calls, the
  port's pending bytes untouched). Entered with \<^verbatim>\<open>transmit_frame_type\<close> NORMAL and no
  changed receiver parameter, it clears the payload, sets \<^verbatim>\<open>payload_len\<close> to 0 and packs a
  normal frame with that empty payload. Entered with NORMAL and a changed receiver
  parameter, it latches SET_RX_PARAMS, clears the flag, packs the command frame that sets
  the receiver's parameters and leaves \<^verbatim>\<open>payload\<close> and \<^verbatim>\<open>payload_len\<close> as they were.
\<close>

theorem not_connected_transmits_empty_payload:
  assumes "\<not> connected s"
  shows "filter is_getc (new_calls s (process_transmit_frame cfg ant ack_bit s)) = []
       \<and> serial_rx (process_transmit_frame cfg ant ack_bit s) = serial_rx s
       \<and> (transmit_frame_type s = TRANSMIT_FRAME_TYPE_NORMAL \<and> \<not> setup_rx_param_changed s
            \<longrightarrow> payload_len (process_transmit_frame cfg ant ack_bit s) = 0
              \<and> payload (process_transmit_frame cfg ant ack_bit s)
                = replicate (FRAME_TX_PAYLOAD_LEN cfg) 0
              \<and> (\<exists>fs. new_calls s (process_transmit_frame cfg ant ack_bit s) =
                    (if serialport s \<noteq> None then [Mavlink_flush] else [])
                    @ [Pack_tx_frame fs (rcData s) (replicate (FRAME_TX_PAYLOAD_LEN cfg) 0) 0,
                       if ant = ANTENNA_1 then Sx_SendFrame else Sx2_SendFrame]))
       \<and> (transmit_frame_type s = TRANSMIT_FRAME_TYPE_NORMAL \<and> setup_rx_param_changed s
            \<longrightarrow> transmit_frame_type (process_transmit_frame cfg ant ack_bit s)
                = TRANSMIT_FRAME_TYPE_CMD_SET_RX_PARAMS
              \<and> \<not> setup_rx_param_changed (process_transmit_frame cfg ant ack_bit s)
              \<and> payload_len (process_transmit_frame cfg ant ack_bit s) = payload_len s
              \<and> payload (process_transmit_frame cfg ant ack_bit s) = payload s
              \<and> mavlink_rx (process_transmit_frame cfg ant ack_bit s) = mavlink_rx s
              \<and> (\<exists>fs. new_calls s (process_transmit_frame cfg ant ack_bit s) =
                    [Pack_txcmd_set_rxparams_frame fs (rcData s),
                     if ant = ANTENNA_1 then Sx_SendFrame else Sx2_SendFrame]))"
  using assms
  by (simp add: process_transmit_frame_def pack_and_send_def collect_payload_def
      latch_rx_param_changed_def pack_tx_cmd_frame_def connected_def call_def new_calls_def
      Let_def split: TRANSMIT_FRAME_TYPE.splits)

theorem not_connected_transmits_empty_payload_witness:
  "\<not> connected (tx0\<lparr> transmit_frame_type := TRANSMIT_FRAME_TYPE_NORMAL \<rparr>)
   \<and> serial_rx (tx0\<lparr> transmit_frame_type := TRANSMIT_FRAME_TYPE_NORMAL \<rparr>) = [0x61, 0x62]
   \<and> serial_rx (process_transmit_frame cfg0 ANTENNA_1 1
                  (tx0\<lparr> transmit_frame_type := TRANSMIT_FRAME_TYPE_NORMAL \<rparr>)) = [0x61, 0x62]
   \<and> payload_len (process_transmit_frame cfg0 ANTENNA_1 1
                  (tx0\<lparr> transmit_frame_type := TRANSMIT_FRAME_TYPE_NORMAL \<rparr>)) = 0
   \<and> payload (process_transmit_frame cfg0 ANTENNA_1 1
                  (tx0\<lparr> transmit_frame_type := TRANSMIT_FRAME_TYPE_NORMAL \<rparr>)) = [0, 0, 0, 0]
   \<and> \<not> connected tx_param_changed
   \<and> transmit_frame_type (process_transmit_frame cfg0 ANTENNA_1 1 tx_param_changed)
     = TRANSMIT_FRAME_TYPE_CMD_SET_RX_PARAMS
   \<and> payload_len (process_transmit_frame cfg0 ANTENNA_1 1 tx_param_changed) = 3"
proof -
  let ?s = "tx0\<lparr> transmit_frame_type := TRANSMIT_FRAME_TYPE_NORMAL \<rparr>"
  have a: "\<not> connected ?s" by (simp add: connected_def tx0_def)
  have b: "\<not> connected tx_param_changed" "setup_rx_param_changed tx_param_changed"
    "transmit_frame_type tx_param_changed = TRANSMIT_FRAME_TYPE_NORMAL"
    "payload_len tx_param_changed = 3"
    by (simp_all add: connected_def tx_param_changed_def tx0_def)
  have r: "replicate (FRAME_TX_PAYLOAD_LEN cfg0) (0::u8) = [0, 0, 0, 0]"
    by (simp add: cfg0_def numeral_eq_Suc)
  from not_connected_transmits_empty_payload [OF a, of cfg0 ANTENNA_1 1]
       not_connected_transmits_empty_payload [OF b(1), of cfg0 ANTENNA_1 1] a b r
  show ?thesis by (simp add: tx0_def)
qed

subsection \<open>Connection state machine\<close>

lemma sys_task_conn:
  "connect_state (sys_task cfg s) = connect_state s"
  "connect_sync_cnt (sys_task cfg s) = connect_sync_cnt s"
  "connect_tmo_cnt (sys_task cfg s)
   = (if connect_tmo_cnt s \<noteq> 0 then connect_tmo_cnt s - 1 else 0)"
  by (simp_all add: sys_task_def Let_def)

lemma update_valid_listen:
  "connect_state s = CONNECT_STATE_LISTEN \<Longrightarrow>
   connect_state (connection_update cfg True s) = CONNECT_STATE_SYNC
   \<and> connect_sync_cnt (connection_update cfg True s) = 0"
  by (simp add: connection_update_def connected_def Let_def)

lemma update_valid_sync:
  "connect_state s = CONNECT_STATE_SYNC \<Longrightarrow> CONNECT_TMO_SYSTICKS cfg \<noteq> 0 \<Longrightarrow>
   connect_sync_cnt (connection_update cfg True s) = connect_sync_cnt s + 1
   \<and> connect_state (connection_update cfg True s) =
      (if CONNECT_SYNC_CNT cfg \<le> unat (connect_sync_cnt s + 1)
       then CONNECT_STATE_CONNECTED else CONNECT_STATE_SYNC)"
  by (simp add: connection_update_def connected_def Let_def)

lemma update_valid_connected:
  "connect_state s = CONNECT_STATE_CONNECTED \<Longrightarrow> CONNECT_TMO_SYSTICKS cfg \<noteq> 0 \<Longrightarrow>
   connect_state (connection_update cfg True s) = CONNECT_STATE_CONNECTED"
  by (simp add: connection_update_def connected_def Let_def)

lemma update_valid_arms_timeout:
  "connect_tmo_cnt (connection_update cfg True s) = CONNECT_TMO_SYSTICKS cfg"
  by (simp add: connection_update_def connected_def Let_def split: CONNECT_STATE.splits)

lemma update_invalid:
  "connect_state (connection_update cfg False s) =
     (if connect_state s = CONNECT_STATE_CONNECTED \<and> connect_tmo_cnt s = 0
      then CONNECT_STATE_LISTEN else connect_state s)"
  "connect_tmo_cnt (connection_update cfg False s) = connect_tmo_cnt s"
  by (simp_all add: connection_update_def connected_def Let_def)

lemma run_connected:
  assumes "CONNECT_TMO_SYSTICKS cfg \<noteq> 0"
  shows "connect_state s = CONNECT_STATE_CONNECTED \<Longrightarrow> PreTransmit False \<notin> set evs \<Longrightarrow>
         connect_state (conn_run cfg evs s) = CONNECT_STATE_CONNECTED"
proof (induction evs arbitrary: s)
  case Nil
  then show ?case by simp
next
  case (Cons ev evs)
  show ?case
  proof (cases ev)
    case SysTick
    with Cons show ?thesis by (simp add: sys_task_conn)
  next
    case (PreTransmit v)
    with Cons.prems have "v" by auto
    with PreTransmit Cons update_valid_connected [OF Cons.prems(1) assms] show ?thesis by simp
  qed
qed

lemma run_sync:
  assumes tmo: "CONNECT_TMO_SYSTICKS cfg \<noteq> 0" and k: "CONNECT_SYNC_CNT cfg \<le> 255"
  shows "connect_state s = CONNECT_STATE_SYNC \<Longrightarrow>
         unat (connect_sync_cnt s) < CONNECT_SYNC_CNT cfg \<Longrightarrow>
         PreTransmit False \<notin> set evs \<Longrightarrow>
         CONNECT_SYNC_CNT cfg \<le> unat (connect_sync_cnt s) + count_list evs (PreTransmit True) \<Longrightarrow>
         connect_state (conn_run cfg evs s) = CONNECT_STATE_CONNECTED"
proof (induction evs arbitrary: s)
  case Nil
  then show ?case by simp
next
  case (Cons ev evs)
  show ?case
  proof (cases ev)
    case SysTick
    with Cons.prems Cons.IH [of "sys_task cfg s"] show ?thesis by (simp add: sys_task_conn)
  next
    case (PreTransmit v)
    with Cons.prems have v: "v" by auto
    let ?s' = "connection_update cfg True s"
    from Cons.prems(2) k have "unat (connect_sync_cnt s) < 255" by simp
    then have inc: "unat (connect_sync_cnt s + 1) = unat (connect_sync_cnt s) + 1"
      by (simp add: unat_word_ariths)
    note u = update_valid_sync [OF Cons.prems(1) tmo]
    show ?thesis
    proof (cases "CONNECT_SYNC_CNT cfg \<le> unat (connect_sync_cnt s + 1)")
      case True
      with u have "connect_state ?s' = CONNECT_STATE_CONNECTED" by simp
      from run_connected [OF tmo this, of evs] Cons.prems(3) PreTransmit v show ?thesis by simp
    next
      case False
      with u have st: "connect_state ?s' = CONNECT_STATE_SYNC" by simp
      from False u have lt: "unat (connect_sync_cnt ?s') < CONNECT_SYNC_CNT cfg" by simp
      from Cons.prems(4) PreTransmit v u inc
      have "CONNECT_SYNC_CNT cfg
            \<le> unat (connect_sync_cnt ?s') + count_list evs (PreTransmit True)"
        by simp
      from Cons.IH [OF st lt _ this] Cons.prems(3) PreTransmit v show ?thesis by simp
    qed
  qed
qed

lemma run_listen:
  assumes tmo: "CONNECT_TMO_SYSTICKS cfg \<noteq> 0" and k: "CONNECT_SYNC_CNT cfg \<le> 255"
    and k1: "1 \<le> CONNECT_SYNC_CNT cfg"
  shows "connect_state s = CONNECT_STATE_LISTEN \<Longrightarrow> PreTransmit False \<notin> set evs \<Longrightarrow>
         count_list evs (PreTransmit True) = CONNECT_SYNC_CNT cfg + 1 \<Longrightarrow>
         connect_state (conn_run cfg evs s) = CONNECT_STATE_CONNECTED"
proof (induction evs arbitrary: s)
  case Nil
  then show ?case by simp
next
  case (Cons ev evs)
  show ?case
  proof (cases ev)
    case SysTick
    with Cons.prems Cons.IH [of "sys_task cfg s"] show ?thesis by (simp add: sys_task_conn)
  next
    case (PreTransmit v)
    with Cons.prems have v: "v" by auto
    let ?s' = "connection_update cfg True s"
    note u = update_valid_listen [OF Cons.prems(1), of cfg]
    from u k1 have lt: "unat (connect_sync_cnt ?s') < CONNECT_SYNC_CNT cfg" by simp
    from Cons.prems(3) PreTransmit v u
    have "CONNECT_SYNC_CNT cfg \<le> unat (connect_sync_cnt ?s') + count_list evs (PreTransmit True)"
      by simp
    from run_sync [OF tmo k _ lt _ this] u Cons.prems(2) PreTransmit v show ?thesis by simp
  qed
qed

lemma run_timeout:
  "connect_state s = CONNECT_STATE_LISTEN
     \<or> (connect_state s = CONNECT_STATE_CONNECTED
        \<and> unat (connect_tmo_cnt s) \<le> count_list evs SysTick) \<Longrightarrow>
   set evs \<subseteq> {SysTick, PreTransmit False} \<Longrightarrow>
   connect_state (conn_run cfg (evs @ [PreTransmit False]) s) = CONNECT_STATE_LISTEN"
proof (induction evs arbitrary: s)
  case Nil
  then show ?case by (auto simp add: update_invalid unat_eq_0)
next
  case (Cons ev evs)
  from Cons.prems(2) have ev: "ev = SysTick \<or> ev = PreTransmit False"
    and evs: "set evs \<subseteq> {SysTick, PreTransmit False}" by auto
  from ev show ?case
  proof
    assume t: "ev = SysTick"
    have "unat (connect_tmo_cnt s - 1) = unat (connect_tmo_cnt s) - 1"
      if "connect_tmo_cnt s \<noteq> 0"
      using that by (simp add: unat_minus_one)
    with Cons.prems(1) t
    have "connect_state (sys_task cfg s) = CONNECT_STATE_LISTEN
     \<or> (connect_state (sys_task cfg s) = CONNECT_STATE_CONNECTED
         \<and> unat (connect_tmo_cnt (sys_task cfg s)) \<le> count_list evs SysTick)"
      by (auto simp add: sys_task_conn)
    from Cons.IH [OF this evs] t show ?thesis by simp
  next
    assume f: "ev = PreTransmit False"
    with Cons.prems(1)
    have "connect_state (connection_update cfg False s) = CONNECT_STATE_LISTEN
     \<or> (connect_state (connection_update cfg False s) = CONNECT_STATE_CONNECTED
         \<and> unat (connect_tmo_cnt (connection_update cfg False s)) \<le> count_list evs SysTick)"
      by (auto simp add: update_invalid)
    from Cons.IH [OF this evs] f show ?thesis by simp
  qed
qed

text \<open>
  C1, as claimed: from Listen, \<^verbatim>\<open>CONNECT_SYNC_CNT\<close> consecutive pre-transmit steps with a
  valid frame end in Connected. With a threshold of 2 the state after two such steps is
  Sync: the first valid frame enters Sync with the counter at 0, and the counter has to
  reach the threshold from there.
\<close>

theorem two_valid_frames_reach_sync_only:
  "connect_state tx0 = CONNECT_STATE_LISTEN \<and> CONNECT_SYNC_CNT cfg0 = 2
   \<and> connect_state (conn_run cfg0 (replicate (CONNECT_SYNC_CNT cfg0) (PreTransmit True)) tx0)
     = CONNECT_STATE_SYNC"
proof -
  have r: "replicate (CONNECT_SYNC_CNT cfg0) (PreTransmit True)
           = [PreTransmit True, PreTransmit True]"
    by (simp add: cfg0_def numeral_eq_Suc)
  show ?thesis unfolding r
    by (simp add: cfg0_def tx0_def connection_update_def connected_def Let_def)
qed

subsection \<open>Passes of the main loop\<close>

lemma handle_receive_keeps:
  "connect_state (handle_receive cfg ant s) = connect_state s
   \<and> connect_tmo_cnt (handle_receive cfg ant s) = connect_tmo_cnt s
   \<and> connect_sync_cnt (handle_receive cfg ant s) = connect_sync_cnt s
   \<and> link_rx1_status (handle_receive cfg ant s) = link_rx1_status s
   \<and> link_rx2_status (handle_receive cfg ant s) = link_rx2_status s
   \<and> rxFrame (handle_receive cfg ant s) = rxFrame s
   \<and> rxFrame2 (handle_receive cfg ant s) = rxFrame2 s
   \<and> fhss_curr_i (handle_receive cfg ant s) = fhss_curr_i s"
  by (simp add: handle_receive_def process_received_frame_def process_received_cmd_rx_frame_def
      call_def Let_def)

lemma handle_receive_type:
  "transmit_frame_type (handle_receive cfg ant s) =
     (if (if ant = ANTENNA_1 then link_rx1_status s else link_rx2_status s) \<noteq> RX_STATUS_INVALID
         \<and> carries_ack cfg (if ant = ANTENNA_1 then rxFrame s else rxFrame2 s)
      then TRANSMIT_FRAME_TYPE_NORMAL else transmit_frame_type s)"
  by (simp add: handle_receive_def process_received_frame_def process_received_cmd_rx_frame_def
      carries_ack_def call_def Let_def)

lemma connection_update_conn:
  "connect_state s1 = connect_state s2 \<Longrightarrow> connect_tmo_cnt s1 = connect_tmo_cnt s2 \<Longrightarrow>
   connect_sync_cnt s1 = connect_sync_cnt s2 \<Longrightarrow>
   connect_state (connection_update cfg v s1) = connect_state (connection_update cfg v s2)
   \<and> connect_tmo_cnt (connection_update cfg v s1) = connect_tmo_cnt (connection_update cfg v s2)
   \<and> connect_sync_cnt (connection_update cfg v s1) = connect_sync_cnt (connection_update cfg v s2)"
  by (simp add: connection_update_def connected_def Let_def split: CONNECT_STATE.splits)

lemma connection_update_keeps:
  "transmit_frame_type (connection_update cfg v s) = transmit_frame_type s
   \<and> rxFrame (connection_update cfg v s) = rxFrame s
   \<and> rxFrame2 (connection_update cfg v s) = rxFrame2 s"
  by (simp add: connection_update_def connected_def Let_def split: CONNECT_STATE.splits)

lemma pre_transmit_conn:
  assumes "doPreTransmit s"
  shows "connect_state (pre_transmit cfg s)
         = connect_state (connection_update cfg (valid_frame_received cfg s) s)"
proof -
  let ?s0 = "s\<lparr> doPreTransmit := False \<rparr>"
  let ?s1 = "if frame_received cfg ?s0 then handle_receive cfg (choose_antenna cfg ?s0) ?s0
             else handle_receive_none ?s0"
  let ?s2 = "?s1\<lparr> txstats_fhss_curr_i := fhss_curr_i ?s1,
                 txstats_rx1_valid :=
                   (rx_status_val (link_rx1_status ?s1) > rx_status_val RX_STATUS_INVALID),
                 txstats_rx2_valid :=
                   (rx_status_val (link_rx2_status ?s1) > rx_status_val RX_STATUS_INVALID) \<rparr>"
  have v: "valid_frame_received cfg ?s0 = valid_frame_received cfg s"
    by (simp add: valid_frame_received_def)
  have "connect_state ?s2 = connect_state s \<and> connect_tmo_cnt ?s2 = connect_tmo_cnt s
        \<and> connect_sync_cnt ?s2 = connect_sync_cnt s"
    by (simp add: handle_receive_keeps handle_receive_none_def)
  then have c: "connect_state (connection_update cfg (valid_frame_received cfg s) ?s2)
        = connect_state (connection_update cfg (valid_frame_received cfg s) s)"
    using connection_update_conn [of ?s2 s cfg] by simp
  have "connect_state (pre_transmit cfg s)
        = connect_state (connection_update cfg (valid_frame_received cfg ?s0) ?s2)"
    using assms by (simp add: pre_transmit_def Let_def call_def)
  with c v show ?thesis by simp
qed

lemma pre_transmit_type:
  "transmit_frame_type (pre_transmit cfg s) = TRANSMIT_FRAME_TYPE_NORMAL \<Longrightarrow>
   transmit_frame_type s = TRANSMIT_FRAME_TYPE_NORMAL
   \<or> carries_ack cfg (rxFrame s) \<or> carries_ack cfg (rxFrame2 s)"
  by (auto simp add: pre_transmit_def Let_def call_def connection_update_keeps handle_receive_type
      handle_receive_none_def split: if_splits)

lemma pre_transmit_frames:
  "rxFrame (pre_transmit cfg s) = rxFrame s \<and> rxFrame2 (pre_transmit cfg s) = rxFrame2 s"
  by (simp add: pre_transmit_def Let_def call_def connection_update_keeps handle_receive_keeps
      handle_receive_none_def)

lemma other_handling_keeps:
  "rxFrame (other_handling cfg e s) = rxFrame s
   \<and> rxFrame2 (other_handling cfg e s) = rxFrame2 s
   \<and> link_state (other_handling cfg e s) = link_state s
   \<and> link_rx1_status (other_handling cfg e s) = link_rx1_status s
   \<and> link_rx2_status (other_handling cfg e s) = link_rx2_status s
   \<and> irq_status (other_handling cfg e s) = irq_status s
   \<and> irq2_status (other_handling cfg e s) = irq2_status s
   \<and> doPreTransmit (other_handling cfg e s) = doPreTransmit s
   \<and> stats (other_handling cfg e s) = stats s
   \<and> fhss_curr_i (other_handling cfg e s) = fhss_curr_i s
   \<and> connect_state (other_handling cfg e s) = connect_state s"
  by (simp add: other_handling_def channels_handling_def command_handling_def mavlink_handling_def
      Let_def split: option.splits MBRIDGE_CMD.splits)


lemma interrupts_keeps:
  "transmit_frame_type (interrupts cfg e s) = transmit_frame_type s
   \<and> link_state (interrupts cfg e s) = link_state s
   \<and> doPreTransmit (interrupts cfg e s) = doPreTransmit s
   \<and> stats (interrupts cfg e s) = stats s
   \<and> fhss_curr_i (interrupts cfg e s) = fhss_curr_i s
   \<and> irq_status (interrupts cfg e s) =
       (case dio1 e of None \<Rightarrow> irq_status s
        | Some (irq, buf) \<Rightarrow> SX_DIO_EXTI_IRQHandler cfg irq buf)
   \<and> irq2_status (interrupts cfg e s) =
       (case dio2 e of None \<Rightarrow> irq2_status s
        | Some (irq, buf) \<Rightarrow> SX2_DIO_EXTI_IRQHandler cfg irq buf)"
  by (simp add: interrupts_def Let_def split: option.splits prod.splits)

lemma sys_task_keeps:
  "transmit_frame_type (sys_task cfg s) = transmit_frame_type s
   \<and> link_state (sys_task cfg s) = link_state s
   \<and> stats (sys_task cfg s) = stats s
   \<and> fhss_curr_i (sys_task cfg s) = fhss_curr_i s
   \<and> irq_status (sys_task cfg s) = irq_status s
   \<and> irq2_status (sys_task cfg s) = irq2_status s"
  by (simp add: sys_task_def Let_def)

lemma link_receive_keeps:
  "transmit_frame_type (link_receive cfg s) = transmit_frame_type s
   \<and> stats (link_receive cfg s) = stats s
   \<and> fhss_curr_i (link_receive cfg s) = fhss_curr_i s
   \<and> doPreTransmit (link_receive cfg s) = doPreTransmit s"
  by (simp add: link_receive_def call_def Let_def)




lemma irq_handling_zero: "irq_status s = 0 \<Longrightarrow> irq_handling cfg r s = Some s"
  by (simp add: irq_handling_def)

lemma irq2_handling_zero: "irq2_status s = 0 \<Longrightarrow> irq2_handling cfg r s = Some s"
  by (simp add: irq2_handling_def)

lemma pre_transmit_idle: "\<not> doPreTransmit s \<Longrightarrow> pre_transmit cfg s = s"
  by (simp add: pre_transmit_def)

lemma link_state_switch_keeps:
  "link_state s \<noteq> LINK_STATE_TRANSMIT \<Longrightarrow>
   transmit_seq_no (stats (link_state_switch cfg s)) = transmit_seq_no (stats s)
   \<and> fhss_curr_i (link_state_switch cfg s) = fhss_curr_i s"
  by (simp add: link_state_switch_def link_receive_keeps split: LINK_STATE.splits)


lemma quiet_pass:
  assumes "\<not> doSysTask e" "dio1 e = None" "dio2 e = None"
    and "link_state s = LINK_STATE_IDLE" "irq_status s = 0" "irq2_status s = 0"
  shows "main_loop_step cfg e s
         = Some (other_handling cfg e (pre_transmit cfg (interrupts cfg e s)))"
proof -
  let ?s1 = "interrupts cfg e s"
  from assms(4) have sw: "link_state_switch cfg ?s1 = ?s1"
    by (simp add: link_state_switch_def interrupts_keeps)
  from assms(2,5) have "irq_status ?s1 = 0" by (simp add: interrupts_keeps)
  then have h1: "irq_handling cfg (rx_read1 e) ?s1 = Some ?s1" by (rule irq_handling_zero)
  from assms(3,6) have "irq2_status ?s1 = 0" by (simp add: interrupts_keeps)
  then have h2: "irq2_handling cfg (rx_read2 e) ?s1 = Some ?s1" by (rule irq2_handling_zero)
  from assms(1) sw h1 h2 show ?thesis by (simp add: main_loop_step_def Let_def)
qed

text \<open>
  C1, amended. With a sync threshold \<open>K\<close> between 1 and 255 and a non-zero timeout: from
  Listen, a run of system ticks and pre-transmit steps in which every pre-transmit step
  has a valid frame and there are \<open>K + 1\<close> of them ends in Connected (with \<open>K = 2\<close>: at the
  end of cycle 3). A valid frame arms the timeout counter with \<^verbatim>\<open>CONNECT_TMO_SYSTICKS\<close>;
  from Connected, once the system ticks without a valid frame have counted it down to
  zero, the next pre-transmit step returns to Listen. The connection lines of the
  pre-transmit step are what \<open>connection_update\<close> computes.
\<close>

theorem connection_fsm_connects_and_times_out:
  assumes "CONNECT_TMO_SYSTICKS cfg \<noteq> 0"
    and "1 \<le> CONNECT_SYNC_CNT cfg" and "CONNECT_SYNC_CNT cfg \<le> 255"
  shows "(connect_state s = CONNECT_STATE_LISTEN \<and> PreTransmit False \<notin> set evs
          \<and> count_list evs (PreTransmit True) = CONNECT_SYNC_CNT cfg + 1
            \<longrightarrow> connect_state (conn_run cfg evs s) = CONNECT_STATE_CONNECTED)
       \<and> connect_tmo_cnt (connection_update cfg True s) = CONNECT_TMO_SYSTICKS cfg
       \<and> (connect_state s = CONNECT_STATE_CONNECTED \<and> set evs \<subseteq> {SysTick, PreTransmit False}
          \<and> unat (connect_tmo_cnt s) \<le> count_list evs SysTick
            \<longrightarrow> connect_state (conn_run cfg (evs @ [PreTransmit False]) s) = CONNECT_STATE_LISTEN)
       \<and> (doPreTransmit s
            \<longrightarrow> connect_state (pre_transmit cfg s)
              = connect_state (connection_update cfg (valid_frame_received cfg s) s))"
  using run_listen [OF assms(1) assms(3) assms(2), of s evs] run_timeout [of s evs cfg]
    pre_transmit_conn [of s cfg]
  by (simp add: update_valid_arms_timeout)

theorem connection_fsm_witness:
  "CONNECT_TMO_SYSTICKS cfg0 \<noteq> 0 \<and> CONNECT_SYNC_CNT cfg0 = 2
   \<and> connect_state tx0 = CONNECT_STATE_LISTEN
   \<and> connect_state (conn_run cfg0 [PreTransmit True, SysTick, PreTransmit True, PreTransmit True] tx0)
     = CONNECT_STATE_CONNECTED
   \<and> connect_state
       (conn_run cfg0 ([SysTick, PreTransmit False, SysTick] @ [PreTransmit False])
          (tx0\<lparr> connect_state := CONNECT_STATE_CONNECTED, connect_tmo_cnt := 2 \<rparr>))
     = CONNECT_STATE_LISTEN"
proof -
  have c: "CONNECT_TMO_SYSTICKS cfg0 \<noteq> 0" "1 \<le> CONNECT_SYNC_CNT cfg0"
    "CONNECT_SYNC_CNT cfg0 \<le> 255" "CONNECT_SYNC_CNT cfg0 = 2"
    by (simp_all add: cfg0_def)
  have l: "connect_state tx0 = CONNECT_STATE_LISTEN" by (simp add: tx0_def)
  from connection_fsm_connects_and_times_out [OF c(1) c(2) c(3), of tx0
         "[PreTransmit True, SysTick, PreTransmit True, PreTransmit True]"]
       connection_fsm_connects_and_times_out [OF c(1) c(2) c(3),
         of "tx0\<lparr> connect_state := CONNECT_STATE_CONNECTED, connect_tmo_cnt := 2 \<rparr>"
         "[SysTick, PreTransmit False, SysTick]"] c l
  show ?thesis by simp
qed

subsection \<open>Deferred tasks in the main loop\<close>

lemma wt_keeps:
  "whileTransmit (interrupts cfg e s) = whileTransmit s"
  "whileTransmit (sys_task cfg s) = whileTransmit s"
  "whileTransmit (link_receive cfg s) = whileTransmit s"
  "whileTransmit (snd (do_receive ant r s)) = whileTransmit s"
  "whileTransmit (handle_receive cfg ant s) = whileTransmit s"
  "whileTransmit (connection_update cfg v s) = whileTransmit s"
  by (simp_all add: interrupts_def sys_task_def link_receive_def do_receive_def handle_receive_def
      process_received_frame_def process_received_cmd_rx_frame_def connection_update_def
      call_def Let_def split: option.splits prod.splits CONNECT_STATE.splits)

lemma wt_link_transmit:
  "whileTransmit (link_transmit cfg s) = WhileTransmit_Trigger (whileTransmit s)"
  by (simp add: link_transmit_def do_transmit_def fhss_HopToNext_def call_def Let_def
      process_transmit_frame_keeps)

lemma wt_switch:
  "whileTransmit (link_state_switch cfg s) =
     (if link_state s = LINK_STATE_TRANSMIT then WhileTransmit_Trigger (whileTransmit s)
      else whileTransmit s)"
  by (simp add: link_state_switch_def wt_link_transmit wt_keeps split: LINK_STATE.splits)

lemma wt_irq:
  "irq_handling cfg r s = Some s' \<Longrightarrow> whileTransmit s' = whileTransmit s"
  "irq2_handling cfg r s = Some s' \<Longrightarrow> whileTransmit s' = whileTransmit s"
  by (auto simp add: irq_handling_def irq2_handling_def Let_def wt_keeps split: if_splits)

lemma wt_pre_transmit: "whileTransmit (pre_transmit cfg s) = whileTransmit s"
  by (simp add: pre_transmit_def Let_def call_def wt_keeps handle_receive_none_def)

lemma wt_other:
  "whileTransmit (other_handling cfg e s) =
     WhileTransmit_Do
       (if mbridge_cmd e = Some MBRIDGE_CMD_PARAM_STORE
        then WhileTransmit_SetTask WHILE_TASK_STORE_PARAMS (whileTransmit s)
        else whileTransmit s)"
  by (simp add: other_handling_def channels_handling_def command_handling_def mavlink_handling_def
      Let_def split: option.splits MBRIDGE_CMD.splits)

lemma main_loop_step_wt:
  assumes "main_loop_step cfg e s = Some s'"
  shows "whileTransmit s' =
         wt_run ((if link_state s = LINK_STATE_TRANSMIT then [Trigger] else [])
                 @ (if mbridge_cmd e = Some MBRIDGE_CMD_PARAM_STORE
                    then [SetTask WHILE_TASK_STORE_PARAMS] else [])
                 @ [Do]) (whileTransmit s)"
proof -
  let ?s2 = "if doSysTask e then sys_task cfg (interrupts cfg e s) else interrupts cfg e s"
  let ?s3 = "link_state_switch cfg ?s2"
  from assms obtain s4 s5 where
    s4: "irq_handling cfg (rx_read1 e) ?s3 = Some s4" and
    s5: "irq2_handling cfg (rx_read2 e) s4 = Some s5" and
    s': "s' = other_handling cfg e (pre_transmit cfg s5)"
    by (auto simp add: main_loop_step_def Let_def split: option.splits)
  have l: "link_state ?s2 = link_state s" by (simp add: sys_task_keeps interrupts_keeps)
  have w2: "whileTransmit ?s2 = whileTransmit s" by (simp add: wt_keeps)
  from wt_irq(1) [OF s4] wt_irq(2) [OF s5]
  have "whileTransmit s5 = whileTransmit ?s3" by simp
  with l w2 s' show ?thesis by (simp add: wt_other wt_pre_transmit wt_switch)
qed


text \<open>
  C8. One call of \<^verbatim>\<open>Do\<close> executes at most one task, and executes one only in the call that
  counts \<open>do_cnt\<close> down to zero; \<^verbatim>\<open>Trigger\<close> sets \<open>do_cnt\<close> to 5. So a latched STORE_PARAMS
  task has run after \<open>n\<close> calls of \<^verbatim>\<open>Do\<close> that follow the trigger exactly when \<open>n \<ge> 5\<close>: it
  runs in the fifth call, and through any further triggers and calls it is not run
  again. Every pass of the main loop calls \<^verbatim>\<open>Do\<close> exactly once, at its end, after the
  \<^verbatim>\<open>Trigger\<close> of a transmit branch and the \<^verbatim>\<open>SetTask\<close> of a PARAM_STORE command in that pass.
\<close>

theorem while_transmit_one_task_after_countdown:
  "tasks_run (WhileTransmit_Do w) \<le> tasks_run w + 1
   \<and> (tasks_run (WhileTransmit_Do w) \<noteq> tasks_run w
        \<longrightarrow> do_cnt w = 1 \<and> do_cnt (WhileTransmit_Do w) = 0)
   \<and> do_cnt (WhileTransmit_Trigger w) = 5
   \<and> store_pending (WhileTransmit_SetTask WHILE_TASK_STORE_PARAMS w)
   \<and> (store_pending w
        \<longrightarrow> tasks_run (wt_run (Trigger # replicate n Do) w)
            = tasks_run w + (if 5 \<le> n then 1 else 0))
   \<and> (set cs \<subseteq> {Trigger, Do} \<longrightarrow> tasks_run (wt_run cs w) \<le> tasks_run w + 1)
   \<and> (main_loop_step cfg e s = Some s'
        \<longrightarrow> whileTransmit s' =
            wt_run ((if link_state s = LINK_STATE_TRANSMIT then [Trigger] else [])
                    @ (if mbridge_cmd e = Some MBRIDGE_CMD_PARAM_STORE
                       then [SetTask WHILE_TASK_STORE_PARAMS] else [])
                    @ [Do]) (whileTransmit s))"
  using Do_at_most_one [of w] Do_only_at_zero [of w] SetTask_latches [of w]
    run_trigger_Do [of w n] run_at_most_once [of cs w] main_loop_step_wt [of cfg e s s']
  by (simp add: WhileTransmit_Trigger_def)

theorem while_transmit_witness:
  "store_pending (WhileTransmit_SetTask WHILE_TASK_STORE_PARAMS wt0)
   \<and> tasks_run (WhileTransmit_SetTask WHILE_TASK_STORE_PARAMS wt0) = 0
   \<and> tasks_run (wt_run (Trigger # replicate 4 Do)
                  (WhileTransmit_SetTask WHILE_TASK_STORE_PARAMS wt0)) = 0
   \<and> tasks_run (wt_run (Trigger # replicate 5 Do)
                  (WhileTransmit_SetTask WHILE_TASK_STORE_PARAMS wt0)) = 1
   \<and> set [Trigger, Do, Do, Do, Do, Do, Trigger, Do, Do, Do, Do, Do, Do] \<subseteq> {Trigger, Do}
   \<and> tasks_run (wt_run [Trigger, Do, Do, Do, Do, Do, Trigger, Do, Do, Do, Do, Do, Do]
                  (WhileTransmit_SetTask WHILE_TASK_STORE_PARAMS wt0)) \<le> 1
   \<and> (\<exists>s'. main_loop_step cfg0 (env0\<lparr> mbridge_cmd := Some MBRIDGE_CMD_PARAM_STORE \<rparr>) tx0
             = Some s'
          \<and> whileTransmit s'
            = WhileTransmit_Do (WhileTransmit_SetTask WHILE_TASK_STORE_PARAMS wt0))"
proof -
  let ?w = "WhileTransmit_SetTask WHILE_TASK_STORE_PARAMS wt0"
  let ?e = "env0\<lparr> mbridge_cmd := Some MBRIDGE_CMD_PARAM_STORE \<rparr>"
  let ?s' = "other_handling cfg0 ?e (pre_transmit cfg0 (interrupts cfg0 ?e tx0))"
  have z: "tasks_run ?w = 0"
    by (simp add: tasks_run_def WhileTransmit_SetTask_def wt0_def)
  have sub: "set [Trigger, Do, Do, Do, Do, Do, Trigger, Do, Do, Do, Do, Do, Do] \<subseteq> {Trigger, Do}"
    by simp
  have e: "\<not> doSysTask ?e" "dio1 ?e = None" "dio2 ?e = None"
    "mbridge_cmd ?e = Some MBRIDGE_CMD_PARAM_STORE"
    by (simp_all add: env0_def)
  have q: "link_state tx0 = LINK_STATE_IDLE" "irq_status tx0 = 0" "irq2_status tx0 = 0"
    "whileTransmit tx0 = wt0"
    by (simp_all add: tx0_def)
  have step: "main_loop_step cfg0 ?e tx0 = Some ?s'"
    by (rule quiet_pass [OF e(1) e(2) e(3) q(1) q(2) q(3)])
  from while_transmit_one_task_after_countdown [of ?w 4
         "[Trigger, Do, Do, Do, Do, Do, Trigger, Do, Do, Do, Do, Do, Do]" cfg0 ?e tx0 ?s']
       while_transmit_one_task_after_countdown [of ?w 5 "[]" cfg0 ?e tx0 ?s']
       while_transmit_one_task_after_countdown [of wt0 0 "[]" cfg0 ?e tx0 ?s'] z sub step e(4) q
  show ?thesis by simp
qed

subsection \<open>An invalid frame in the pre-transmit step\<close>

lemma pre_transmit_invalid_no_putc:
  assumes "doPreTransmit s" "frame_received cfg s"
    "(if choose_antenna cfg s = ANTENNA_1 then link_rx1_status s else link_rx2_status s)
       = RX_STATUS_INVALID"
  shows "filter is_putc (new_calls s (pre_transmit cfg s)) = []"
proof -
  let ?s0 = "s\<lparr> doPreTransmit := False \<rparr>"
  have "frame_received cfg ?s0 = frame_received cfg s" by (simp add: frame_received_def)
  with assms(2) have f: "frame_received cfg ?s0" by simp
  have c: "choose_antenna cfg ?s0 = choose_antenna cfg s" by (simp add: choose_antenna_def)
  from assms(3) c
  have "(if choose_antenna cfg ?s0 = ANTENNA_1 then link_rx1_status ?s0 else link_rx2_status ?s0)
        = RX_STATUS_INVALID" by (simp split: if_splits)
  from handle_receive_invalid_effect [OF this, of cfg]
  have h: "calls (handle_receive cfg (choose_antenna cfg ?s0) ?s0) = calls s @ [Txstats_doFrameReceived]"
    by simp
  have k: "calls (connection_update cfg v t) = calls t" for v t
    by (simp add: connection_update_def connected_def Let_def split: CONNECT_STATE.splits)
  show ?thesis using assms(1) f h
    by (simp add: pre_transmit_def new_calls_def call_def Let_def k)
qed

text \<open>
  C10. When the elected antenna's receive status is Invalid, \<^verbatim>\<open>handle_receive\<close> sets
  \<^verbatim>\<open>stats.received_seq_no_last\<close> to \<^verbatim>\<open>UINT8_MAX\<close> and \<^verbatim>\<open>stats.received_ack_last\<close> to 0,
  records the antenna in \<^verbatim>\<open>stats.last_rx_antenna\<close>, and its only call to a collaborator is
  \<^verbatim>\<open>txstats.doFrameReceived\<close>: no byte is written to the serial port or the MAVLink
  handler, and none in the whole pre-transmit step that elected the antenna.
\<close>

theorem handle_receive_invalid:
  assumes "(if ant = ANTENNA_1 then link_rx1_status s else link_rx2_status s) = RX_STATUS_INVALID"
  shows "received_seq_no_last (stats (handle_receive cfg ant s)) = UINT8_MAX
       \<and> received_seq_no_last (stats (handle_receive cfg ant s)) = 255
       \<and> received_ack_last (stats (handle_receive cfg ant s)) = 0
       \<and> last_rx_antenna (stats (handle_receive cfg ant s)) = ant
       \<and> calls (handle_receive cfg ant s) = calls s @ [Txstats_doFrameReceived]
       \<and> new_calls s (handle_receive cfg ant s) = [Txstats_doFrameReceived]
       \<and> filter is_putc (new_calls s (handle_receive cfg ant s)) = []
       \<and> (doPreTransmit s \<and> frame_received cfg s \<and> choose_antenna cfg s = ant
            \<longrightarrow> filter is_putc (new_calls s (pre_transmit cfg s)) = [])"
  using handle_receive_invalid_effect [OF assms, of cfg] pre_transmit_invalid_no_putc [of s cfg] assms
  by (auto simp add: UINT8_MAX_def)

theorem handle_receive_invalid_witness:
  "link_rx2_status (tx0\<lparr> doPreTransmit := True, link_rx2_status := RX_STATUS_INVALID \<rparr>)
     = RX_STATUS_INVALID
   \<and> frame_received cfg0 (tx0\<lparr> doPreTransmit := True, link_rx2_status := RX_STATUS_INVALID \<rparr>)
   \<and> choose_antenna cfg0 (tx0\<lparr> doPreTransmit := True, link_rx2_status := RX_STATUS_INVALID \<rparr>)
     = ANTENNA_2
   \<and> received_seq_no_last
       (stats (handle_receive cfg0 ANTENNA_2
                 (tx0\<lparr> doPreTransmit := True, link_rx2_status := RX_STATUS_INVALID \<rparr>)))
     = 255
   \<and> received_ack_last
       (stats (handle_receive cfg0 ANTENNA_2
                 (tx0\<lparr> doPreTransmit := True, link_rx2_status := RX_STATUS_INVALID \<rparr>)))
     = 0
   \<and> last_rx_antenna
       (stats (handle_receive cfg0 ANTENNA_2
                 (tx0\<lparr> doPreTransmit := True, link_rx2_status := RX_STATUS_INVALID \<rparr>)))
     = ANTENNA_2
   \<and> calls (handle_receive cfg0 ANTENNA_2
              (tx0\<lparr> doPreTransmit := True, link_rx2_status := RX_STATUS_INVALID \<rparr>))
     = [Txstats_doFrameReceived]
   \<and> filter is_putc
       (new_calls (tx0\<lparr> doPreTransmit := True, link_rx2_status := RX_STATUS_INVALID \<rparr>)
          (pre_transmit cfg0
             (tx0\<lparr> doPreTransmit := True, link_rx2_status := RX_STATUS_INVALID \<rparr>)))
     = []"
proof -
  let ?s = "tx0\<lparr> doPreTransmit := True, link_rx2_status := RX_STATUS_INVALID \<rparr>"
  have a: "link_rx2_status ?s = RX_STATUS_INVALID" "doPreTransmit ?s" "calls ?s = []"
    by (simp_all add: tx0_def)
  have f: "frame_received cfg0 ?s"
    by (simp add: frame_received_def cfg0_def tx0_def)
  have c: "choose_antenna cfg0 ?s = ANTENNA_2"
    by (simp add: choose_antenna_def cfg0_def tx0_def stats0_def)
  from handle_receive_invalid [of ANTENNA_2 ?s cfg0] a f c
  show ?thesis by (simp add: UINT8_MAX_def)
qed

subsection \<open>Passes and cycles\<close>

lemma main_loop_step_split:
  "main_loop_step cfg e s =
     (case sx_handling cfg e s of
        None \<Rightarrow> None
      | Some s5 \<Rightarrow> Some (other_handling cfg e (pre_transmit cfg s5)))"
  by (simp add: main_loop_step_def sx_handling_def Let_def split: option.splits)

lemma front_facts:
  "doPreTransmit (if doSysTask e then sys_task cfg (interrupts cfg e s) else interrupts cfg e s)
     = frame_tick cfg e s
   \<and> link_state (if doSysTask e then sys_task cfg (interrupts cfg e s) else interrupts cfg e s)
     = link_state s
   \<and> stats (if doSysTask e then sys_task cfg (interrupts cfg e s) else interrupts cfg e s)
     = stats s
   \<and> fhss_curr_i (if doSysTask e then sys_task cfg (interrupts cfg e s) else interrupts cfg e s)
     = fhss_curr_i s
   \<and> irq_status (if doSysTask e then sys_task cfg (interrupts cfg e s) else interrupts cfg e s)
     = slot1 cfg e s
   \<and> irq2_status (if doSysTask e then sys_task cfg (interrupts cfg e s) else interrupts cfg e s)
     = slot2 cfg e s"
  by (auto simp add: frame_tick_def slot1_def slot2_def sys_task_def interrupts_def Let_def
      split: option.splits prod.splits)

lemma switch_facts:
  "doPreTransmit (link_state_switch cfg s) = doPreTransmit s
   \<and> link_state (link_state_switch cfg s) \<noteq> LINK_STATE_TRANSMIT
   \<and> transmit_seq_no (stats (link_state_switch cfg s))
     = transmit_seq_no (stats s) + (if link_state s = LINK_STATE_TRANSMIT then 1 else 0)
   \<and> fhss_curr_i (link_state_switch cfg s)
     = (if link_state s = LINK_STATE_TRANSMIT then (fhss_curr_i s + 1) mod FhssNum cfg
        else fhss_curr_i s)
   \<and> link_state (link_state_switch cfg s)
     = (case link_state s of
          LINK_STATE_TRANSMIT \<Rightarrow> LINK_STATE_TRANSMIT_WAIT
        | LINK_STATE_RECEIVE \<Rightarrow> LINK_STATE_RECEIVE_WAIT
        | x \<Rightarrow> x)
   \<and> irq_status (link_state_switch cfg s)
     = (if link_state s = LINK_STATE_TRANSMIT \<or> link_state s = LINK_STATE_RECEIVE then 0
        else irq_status s)
   \<and> irq2_status (link_state_switch cfg s)
     = (if link_state s = LINK_STATE_TRANSMIT \<or> link_state s = LINK_STATE_RECEIVE then 0
        else irq2_status s)"
  by (simp add: link_state_switch_def link_transmit_effect link_receive_def call_def Let_def
      split: LINK_STATE.splits)

lemma do_receive_link: "link_state (snd (do_receive ant r s)) = link_state s"
  by (simp add: do_receive_keeps)

lemma irq_handling_link:
  "irq_handling cfg r s = Some s' \<Longrightarrow> link_state s \<noteq> LINK_STATE_TRANSMIT \<Longrightarrow>
     link_state s' \<noteq> LINK_STATE_TRANSMIT"
  by (auto simp add: irq_handling_def Let_def do_receive_keeps split: if_splits)

lemma irq2_handling_link:
  "irq2_handling cfg r s = Some s' \<Longrightarrow> link_state s \<noteq> LINK_STATE_TRANSMIT \<Longrightarrow>
     link_state s' \<noteq> LINK_STATE_TRANSMIT"
  by (auto simp add: irq2_handling_def Let_def do_receive_keeps split: if_splits)

lemma sx_handling_facts:
  assumes "sx_handling cfg e s = Some s5"
  shows "doPreTransmit s5 = frame_tick cfg e s"
    and "link_state s5 \<noteq> LINK_STATE_TRANSMIT"
    and "transmit_seq_no (stats s5)
         = transmit_seq_no (stats s) + (if link_state s = LINK_STATE_TRANSMIT then 1 else 0)"
    and "fhss_curr_i s5
         = (if link_state s = LINK_STATE_TRANSMIT then (fhss_curr_i s + 1) mod FhssNum cfg
            else fhss_curr_i s)"
proof -
  define s2 where "s2 = (if doSysTask e then sys_task cfg (interrupts cfg e s)
                         else interrupts cfg e s)"
  define s3 where "s3 = link_state_switch cfg s2"
  from assms obtain s4 where
    s4: "irq_handling cfg (rx_read1 e) s3 = Some s4" and
    s5: "irq2_handling cfg (rx_read2 e) s4 = Some s5"
    by (auto simp add: sx_handling_def Let_def s2_def s3_def split: option.splits)
  from front_facts [of e cfg s]
  have f: "doPreTransmit s2 = frame_tick cfg e s" "link_state s2 = link_state s"
    "stats s2 = stats s" "fhss_curr_i s2 = fhss_curr_i s"
    unfolding s2_def by blast+
  from switch_facts [of cfg s2]
  have w: "doPreTransmit s3 = doPreTransmit s2" "link_state s3 \<noteq> LINK_STATE_TRANSMIT"
    "transmit_seq_no (stats s3)
     = transmit_seq_no (stats s2) + (if link_state s2 = LINK_STATE_TRANSMIT then 1 else 0)"
    "fhss_curr_i s3
     = (if link_state s2 = LINK_STATE_TRANSMIT then (fhss_curr_i s2 + 1) mod FhssNum cfg
        else fhss_curr_i s2)"
    unfolding s3_def by blast+
  from irq_handling_keeps [OF s4]
  have k4: "transmit_seq_no (stats s4) = transmit_seq_no (stats s3)"
    "fhss_curr_i s4 = fhss_curr_i s3" "doPreTransmit s4 = doPreTransmit s3" by blast+
  from irq2_handling_keeps [OF s5]
  have k5: "transmit_seq_no (stats s5) = transmit_seq_no (stats s4)"
    "fhss_curr_i s5 = fhss_curr_i s4" "doPreTransmit s5 = doPreTransmit s4" by blast+
  from f(1) w(1) k4(3) k5(3) show "doPreTransmit s5 = frame_tick cfg e s" by simp
  from irq2_handling_link [OF s5 irq_handling_link [OF s4 w(2)]]
  show "link_state s5 \<noteq> LINK_STATE_TRANSMIT" .
  from f(2) f(3) w(3) k4(1) k5(1) show "transmit_seq_no (stats s5)
         = transmit_seq_no (stats s) + (if link_state s = LINK_STATE_TRANSMIT then 1 else 0)"
    by simp
  from f(2) f(4) w(4) k4(2) k5(2) show "fhss_curr_i s5
         = (if link_state s = LINK_STATE_TRANSMIT then (fhss_curr_i s + 1) mod FhssNum cfg
            else fhss_curr_i s)"
    by simp
qed

lemma handle_receive_flags:
  "doPreTransmit (handle_receive cfg ant s) = doPreTransmit s
   \<and> link_state (handle_receive cfg ant s) = link_state s"
  by (simp add: handle_receive_def process_received_frame_def process_received_cmd_rx_frame_def
      call_def Let_def)

lemma connection_update_flags:
  "doPreTransmit (connection_update cfg v s) = doPreTransmit s
   \<and> link_state (connection_update cfg v s) = link_state s"
  by (simp add: connection_update_def connected_def Let_def split: CONNECT_STATE.splits)

lemma handle_receive_seq:
  "transmit_seq_no (stats (handle_receive cfg ant s)) = transmit_seq_no (stats s)"
  by (simp add: handle_receive_def process_received_frame_def process_received_cmd_rx_frame_def
      call_def Let_def)

lemma connection_update_stats:
  "stats (connection_update cfg v s) = stats s
   \<and> fhss_curr_i (connection_update cfg v s) = fhss_curr_i s"
  by (simp add: connection_update_def connected_def Let_def split: CONNECT_STATE.splits)

lemma pre_transmit_facts:
  "fhss_curr_i (pre_transmit cfg s) = fhss_curr_i s
   \<and> doPreTransmit (pre_transmit cfg s) = False
   \<and> link_state (pre_transmit cfg s)
     = (if doPreTransmit s then LINK_STATE_TRANSMIT else link_state s)"
  by (simp add: pre_transmit_def Let_def call_def connection_update_stats handle_receive_keeps
      handle_receive_none_def handle_receive_flags connection_update_flags)

lemma pre_transmit_seq:
  assumes "\<forall>st. transmit_seq_no (stats_Clear cfg st) = transmit_seq_no st"
  shows "transmit_seq_no (stats (pre_transmit cfg s)) = transmit_seq_no (stats s)"
  using assms
  by (simp add: pre_transmit_def Let_def call_def connection_update_stats handle_receive_seq
      handle_receive_none_def)

lemma pass_facts:
  assumes "main_loop_step cfg e s = Some s'"
  shows "fhss_curr_i s'
         = (if link_state s = LINK_STATE_TRANSMIT then (fhss_curr_i s + 1) mod FhssNum cfg
            else fhss_curr_i s)"
    and "\<not> frame_tick cfg e s \<or> (\<forall>st. transmit_seq_no (stats_Clear cfg st) = transmit_seq_no st)
         \<Longrightarrow> transmit_seq_no (stats s')
             = transmit_seq_no (stats s) + (if link_state s = LINK_STATE_TRANSMIT then 1 else 0)"
    and "(link_state s' = LINK_STATE_TRANSMIT) = frame_tick cfg e s"
    and "\<not> doPreTransmit s'"
proof -
  from assms obtain s5 where s5: "sx_handling cfg e s = Some s5"
    and s': "s' = other_handling cfg e (pre_transmit cfg s5)"
    by (auto simp add: main_loop_step_split split: option.splits)
  note x = sx_handling_facts [OF s5]
  from s' x(4) show "fhss_curr_i s'
         = (if link_state s = LINK_STATE_TRANSMIT then (fhss_curr_i s + 1) mod FhssNum cfg
            else fhss_curr_i s)"
    by (simp add: other_handling_keeps pre_transmit_facts)
  from s' x(1) x(2) show "(link_state s' = LINK_STATE_TRANSMIT) = frame_tick cfg e s"
    by (simp add: other_handling_keeps pre_transmit_facts)
  from s' show "\<not> doPreTransmit s'"
    by (simp add: other_handling_keeps pre_transmit_facts)
  assume h: "\<not> frame_tick cfg e s \<or> (\<forall>st. transmit_seq_no (stats_Clear cfg st) = transmit_seq_no st)"
  have "transmit_seq_no (stats (pre_transmit cfg s5)) = transmit_seq_no (stats s5)"
  proof (cases "frame_tick cfg e s")
    case False
    with x(1) have "pre_transmit cfg s5 = s5" by (simp add: pre_transmit_idle)
    then show ?thesis by simp
  next
    case True
    with h have "\<forall>st. transmit_seq_no (stats_Clear cfg st) = transmit_seq_no st" by simp
    then show ?thesis by (rule pre_transmit_seq)
  qed
  with s' x(3) show "transmit_seq_no (stats s')
             = transmit_seq_no (stats s) + (if link_state s = LINK_STATE_TRANSMIT then 1 else 0)"
    by (simp add: other_handling_keeps)
qed

lemma run_after_transmit:
  "link_state s \<noteq> LINK_STATE_TRANSMIT \<Longrightarrow> no_frame_tick cfg es s \<Longrightarrow>
   main_loop cfg es s = Some s' \<Longrightarrow>
   transmit_seq_no (stats s') = transmit_seq_no (stats s) \<and> fhss_curr_i s' = fhss_curr_i s
   \<and> link_state s' \<noteq> LINK_STATE_TRANSMIT"
proof (induction es arbitrary: s)
  case Nil
  then show ?case by simp
next
  case (Cons e es)
  from Cons.prems(3) obtain s1 where s1: "main_loop_step cfg e s = Some s1"
    and r: "main_loop cfg es s1 = Some s'"
    by (auto split: option.splits)
  from Cons.prems(2) s1 have nt: "\<not> frame_tick cfg e s" and nr: "no_frame_tick cfg es s1"
    by simp_all
  note p = pass_facts [OF s1]
  from p(3) nt have l1: "link_state s1 \<noteq> LINK_STATE_TRANSMIT" by simp
  from Cons.IH [OF l1 nr r] p(1) p(2) nt Cons.prems(1) show ?case by simp
qed

lemma transmit_cycle:
  assumes "link_state s = LINK_STATE_TRANSMIT" and "no_frame_tick cfg (e # es) s"
    and "main_loop cfg (e # es) s = Some s'"
  shows "transmit_seq_no (stats s') = transmit_seq_no (stats s) + 1
       \<and> fhss_curr_i s' = (fhss_curr_i s + 1) mod FhssNum cfg
       \<and> link_state s' \<noteq> LINK_STATE_TRANSMIT"
proof -
  from assms(3) obtain s1 where s1: "main_loop_step cfg e s = Some s1"
    and r: "main_loop cfg es s1 = Some s'"
    by (auto split: option.splits)
  from assms(2) s1 have nt: "\<not> frame_tick cfg e s" and nr: "no_frame_tick cfg es s1"
    by simp_all
  note p = pass_facts [OF s1]
  from p(3) nt have l1: "link_state s1 \<noteq> LINK_STATE_TRANSMIT" by simp
  from run_after_transmit [OF l1 nr r] p(1) p(2) nt assms(1) show ?thesis by simp
qed

lemma main_loop_append:
  "main_loop cfg (es @ fs) s =
     (case main_loop cfg es s of None \<Rightarrow> None | Some s1 \<Rightarrow> main_loop cfg fs s1)"
  by (induction es arbitrary: s) (simp_all split: option.splits)

lemma no_frame_tick_append:
  "main_loop cfg es s = Some s1 \<Longrightarrow>
   no_frame_tick cfg (es @ fs) s = (no_frame_tick cfg es s \<and> no_frame_tick cfg fs s1)"
  by (induction es arbitrary: s) (auto split: option.splits)

lemma irq_no_done:
  assumes "link_state s = LINK_STATE_TRANSMIT_WAIT \<or> link_state s = LINK_STATE_IDLE"
    and "USE_ANTENNA1 cfg \<longrightarrow> no_done cfg (irq_status s)"
  shows "irq_handling cfg r s =
           Some (if USE_ANTENNA1 cfg \<and> irq_status s AND SX12xx_IRQ_TIMEOUT cfg \<noteq> 0
                 then s\<lparr> irq_status := 0, link_state := LINK_STATE_IDLE,
                        link_rx1_status := RX_STATUS_NONE, link_rx2_status := RX_STATUS_NONE \<rparr>
                 else s)"
  using assms by (auto simp add: irq_handling_def no_done_def Let_def)

lemma irq2_no_done:
  assumes "link_state s = LINK_STATE_TRANSMIT_WAIT \<or> link_state s = LINK_STATE_IDLE"
    and "USE_ANTENNA2 cfg \<longrightarrow> no_done cfg (irq2_status s)"
  shows "irq2_handling cfg r s =
           Some (if USE_ANTENNA2 cfg \<and> irq2_status s AND SX12xx_IRQ_TIMEOUT cfg \<noteq> 0
                 then s\<lparr> irq2_status := 0, link_state := LINK_STATE_IDLE,
                        link_rx1_status := RX_STATUS_NONE, link_rx2_status := RX_STATUS_NONE \<rparr>
                 else s)"
  using assms by (auto simp add: irq2_handling_def no_done_def Let_def)

lemma wait_pass:
  assumes ls: "link_state s = LINK_STATE_TRANSMIT_WAIT" and nt: "\<not> frame_tick cfg e s"
    and n1: "USE_ANTENNA1 cfg \<longrightarrow> no_done cfg (slot1 cfg e s)"
    and n2: "USE_ANTENNA2 cfg \<longrightarrow> no_done cfg (slot2 cfg e s)"
  shows "\<exists>s'. main_loop_step cfg e s = Some s'
          \<and> link_state s' =
              (if (USE_ANTENNA1 cfg \<and> slot1 cfg e s AND SX12xx_IRQ_TIMEOUT cfg \<noteq> 0)
                  \<or> (USE_ANTENNA2 cfg \<and> slot2 cfg e s AND SX12xx_IRQ_TIMEOUT cfg \<noteq> 0)
               then LINK_STATE_IDLE else LINK_STATE_TRANSMIT_WAIT)
          \<and> ((USE_ANTENNA1 cfg \<and> slot1 cfg e s AND SX12xx_IRQ_TIMEOUT cfg \<noteq> 0)
              \<or> (USE_ANTENNA2 cfg \<and> slot2 cfg e s AND SX12xx_IRQ_TIMEOUT cfg \<noteq> 0)
             \<longrightarrow> link_rx1_status s' = RX_STATUS_NONE \<and> link_rx2_status s' = RX_STATUS_NONE)
          \<and> irq_status s' =
              (if USE_ANTENNA1 cfg \<and> slot1 cfg e s AND SX12xx_IRQ_TIMEOUT cfg \<noteq> 0 then 0
               else slot1 cfg e s)
          \<and> irq2_status s' =
              (if USE_ANTENNA2 cfg \<and> slot2 cfg e s AND SX12xx_IRQ_TIMEOUT cfg \<noteq> 0 then 0
               else slot2 cfg e s)"
proof -
  define s2 where "s2 = (if doSysTask e then sys_task cfg (interrupts cfg e s)
                         else interrupts cfg e s)"
  from front_facts [of e cfg s]
  have f: "doPreTransmit s2 = frame_tick cfg e s" "link_state s2 = link_state s"
    "irq_status s2 = slot1 cfg e s" "irq2_status s2 = slot2 cfg e s"
    unfolding s2_def by blast+
  from f(2) ls have sw: "link_state_switch cfg s2 = s2" by (simp add: link_state_switch_def)
  define s4 where "s4 = (if USE_ANTENNA1 cfg \<and> irq_status s2 AND SX12xx_IRQ_TIMEOUT cfg \<noteq> 0
                 then s2\<lparr> irq_status := 0, link_state := LINK_STATE_IDLE,
                        link_rx1_status := RX_STATUS_NONE, link_rx2_status := RX_STATUS_NONE \<rparr>
                 else s2)"
  from f(2) f(3) ls n1 have h1: "irq_handling cfg (rx_read1 e) s2 = Some s4"
    unfolding s4_def by (intro irq_no_done) simp_all
  have l4: "link_state s4 = LINK_STATE_TRANSMIT_WAIT \<or> link_state s4 = LINK_STATE_IDLE"
    using f(2) ls by (simp add: s4_def)
  have i4: "irq2_status s4 = slot2 cfg e s" using f(4) by (simp add: s4_def)
  define s5 where "s5 = (if USE_ANTENNA2 cfg \<and> irq2_status s4 AND SX12xx_IRQ_TIMEOUT cfg \<noteq> 0
                 then s4\<lparr> irq2_status := 0, link_state := LINK_STATE_IDLE,
                        link_rx1_status := RX_STATUS_NONE, link_rx2_status := RX_STATUS_NONE \<rparr>
                 else s4)"
  from l4 i4 n2 have h2: "irq2_handling cfg (rx_read2 e) s4 = Some s5"
    unfolding s5_def by (intro irq2_no_done) simp_all
  from sw h1 h2 have sx: "sx_handling cfg e s = Some s5"
    by (simp add: sx_handling_def Let_def s2_def)
  from f(1) nt have "\<not> doPreTransmit s5" by (simp add: s5_def s4_def)
  then have pt: "pre_transmit cfg s5 = s5" by (rule pre_transmit_idle)
  from sx pt have step: "main_loop_step cfg e s = Some (other_handling cfg e s5)"
    by (simp add: main_loop_step_split)
  show ?thesis
    using step f(2) f(3) f(4) ls
    by (auto simp add: other_handling_keeps s5_def s4_def)
qed

lemma timeout_ends_cycle:
  assumes ls: "link_state s = LINK_STATE_TRANSMIT"
    and nf: "no_frame_tick cfg (e # es @ [e']) s"
    and run: "main_loop cfg (e # es) s = Some s1"
    and l1: "link_state s1 = LINK_STATE_TRANSMIT_WAIT"
    and n1: "USE_ANTENNA1 cfg \<longrightarrow> no_done cfg (slot1 cfg e' s1)"
    and n2: "USE_ANTENNA2 cfg \<longrightarrow> no_done cfg (slot2 cfg e' s1)"
    and t: "(USE_ANTENNA1 cfg \<and> slot1 cfg e' s1 AND SX12xx_IRQ_TIMEOUT cfg \<noteq> 0)
            \<or> (USE_ANTENNA2 cfg \<and> slot2 cfg e' s1 AND SX12xx_IRQ_TIMEOUT cfg \<noteq> 0)"
  shows "\<exists>s'. main_loop cfg (e # es @ [e']) s = Some s'
          \<and> link_state s' = LINK_STATE_IDLE
          \<and> link_rx1_status s' = RX_STATUS_NONE \<and> link_rx2_status s' = RX_STATUS_NONE
          \<and> transmit_seq_no (stats s') = transmit_seq_no (stats s) + 1
          \<and> fhss_curr_i s' = (fhss_curr_i s + 1) mod FhssNum cfg"
proof -
  have ap: "e # es @ [e'] = (e # es) @ [e']" by simp
  from nf no_frame_tick_append [OF run, of "[e']"]
  have nt: "\<not> frame_tick cfg e' s1" unfolding ap by simp
  from wait_pass [OF l1 nt n1 n2] t obtain s' where
    st: "main_loop_step cfg e' s1 = Some s'" and
    r: "link_state s' = LINK_STATE_IDLE" "link_rx1_status s' = RX_STATUS_NONE"
       "link_rx2_status s' = RX_STATUS_NONE"
    by auto
  from run st have full: "main_loop cfg (e # es @ [e']) s = Some s'"
    unfolding ap main_loop_append by simp
  from transmit_cycle [OF ls nf full] r full show ?thesis by simp
qed

subsection \<open>Transmit cycles\<close>

lemma read_payload_tx_tick: "tx_tick (read_payload cfg n s) = tx_tick s"
  by (induction n arbitrary: s) (simp_all add: call_def split: list.splits)

lemma tx_tick_keeps:
  "tx_tick (interrupts cfg e s) = tx_tick s"
  "tx_tick (link_receive cfg s) = tx_tick s"
  "tx_tick (snd (do_receive ant r s)) = tx_tick s"
  "tx_tick (handle_receive cfg ant s) = tx_tick s"
  by (simp_all add: interrupts_def link_receive_def do_receive_def handle_receive_def
      process_received_frame_def process_received_cmd_rx_frame_def call_def Let_def
      split: option.splits prod.splits)

lemma tx_tick_ptf: "tx_tick (process_transmit_frame cfg ant a s) = tx_tick s"
  by (simp add: process_transmit_frame_def pack_and_send_def collect_payload_def
      latch_rx_param_changed_def pack_tx_cmd_frame_def read_payload_tx_tick call_def Let_def
      split: TRANSMIT_FRAME_TYPE.splits)

lemma tx_tick_conn: "tx_tick (connection_update cfg v s) = tx_tick s"
  by (simp add: connection_update_def connected_def Let_def split: CONNECT_STATE.splits)

lemma tx_tick_other: "tx_tick (other_handling cfg e s) = tx_tick s"
  by (simp add: other_handling_def channels_handling_def command_handling_def
      mavlink_handling_def Let_def split: option.splits MBRIDGE_CMD.splits)

lemma tx_tick_switch: "tx_tick (link_state_switch cfg s) = tx_tick s"
  by (simp add: link_state_switch_def link_transmit_def do_transmit_def fhss_HopToNext_def
      call_def Let_def tx_tick_keeps tx_tick_ptf split: LINK_STATE.splits)

lemma tx_tick_irq:
  "irq_handling cfg r s = Some s' \<Longrightarrow> tx_tick s' = tx_tick s"
  "irq2_handling cfg r s = Some s' \<Longrightarrow> tx_tick s' = tx_tick s"
  by (auto simp add: irq_handling_def irq2_handling_def Let_def tx_tick_keeps split: if_splits)

lemma tx_tick_pre_transmit: "tx_tick (pre_transmit cfg s) = tx_tick s"
  by (simp add: pre_transmit_def Let_def call_def tx_tick_keeps tx_tick_conn
      handle_receive_none_def)

lemma pass_tx_tick:
  assumes "main_loop_step cfg e s = Some s'"
  shows "tx_tick s' = (if doSysTask e then DECc cfg (tx_tick s) (frame_rate_systicks cfg)
                       else tx_tick s)"
proof -
  define s2 where "s2 = (if doSysTask e then sys_task cfg (interrupts cfg e s)
                         else interrupts cfg e s)"
  from assms obtain s4 s5 where
    s4: "irq_handling cfg (rx_read1 e) (link_state_switch cfg s2) = Some s4" and
    s5: "irq2_handling cfg (rx_read2 e) s4 = Some s5" and
    s': "s' = other_handling cfg e (pre_transmit cfg s5)"
    by (auto simp add: main_loop_step_def Let_def s2_def split: option.splits)
  have "tx_tick s2 = (if doSysTask e then DECc cfg (tx_tick s) (frame_rate_systicks cfg)
                       else tx_tick s)"
    by (simp add: s2_def sys_task_def Let_def tx_tick_keeps)
  with tx_tick_irq(1) [OF s4] tx_tick_irq(2) [OF s5] s' show ?thesis
    by (simp add: tx_tick_other tx_tick_pre_transmit tx_tick_switch)
qed

lemma irq_slots_keeps:
  "irq_status (handle_receive cfg ant s) = irq_status s"
  "irq2_status (handle_receive cfg ant s) = irq2_status s"
  "irq_status (connection_update cfg v s) = irq_status s"
  "irq2_status (connection_update cfg v s) = irq2_status s"
  by (simp_all add: handle_receive_def process_received_frame_def
      process_received_cmd_rx_frame_def connection_update_def connected_def call_def Let_def
      split: CONNECT_STATE.splits)

lemma pre_transmit_slots:
  "irq_status (pre_transmit cfg s) = irq_status s
   \<and> irq2_status (pre_transmit cfg s) = irq2_status s"
  by (simp add: pre_transmit_def Let_def call_def irq_slots_keeps handle_receive_none_def)

lemma transmit_pass_returns:
  assumes ls: "link_state s = LINK_STATE_TRANSMIT"
  shows "\<exists>s'. main_loop_step cfg e s = Some s'
          \<and> link_state s' = (if frame_tick cfg e s then LINK_STATE_TRANSMIT
                             else LINK_STATE_TRANSMIT_WAIT)
          \<and> irq_status s' = 0 \<and> irq2_status s' = 0"
proof -
  define s2 where "s2 = (if doSysTask e then sys_task cfg (interrupts cfg e s)
                         else interrupts cfg e s)"
  define s3 where "s3 = link_transmit cfg s2"
  from front_facts [of e cfg s]
  have f: "doPreTransmit s2 = frame_tick cfg e s" "link_state s2 = link_state s"
    unfolding s2_def by blast+
  from f(2) ls have sw: "link_state_switch cfg s2 = s3"
    by (simp add: link_state_switch_def s3_def)
  from link_transmit_effect [of cfg s2]
  have w: "doPreTransmit s3 = doPreTransmit s2" "link_state s3 = LINK_STATE_TRANSMIT_WAIT"
    "irq_status s3 = 0" "irq2_status s3 = 0"
    unfolding s3_def by blast+
  from sw irq_handling_zero [OF w(3)] irq2_handling_zero [OF w(4)]
  have sx: "sx_handling cfg e s = Some s3"
    by (simp add: sx_handling_def Let_def s2_def)
  then have step: "main_loop_step cfg e s = Some (other_handling cfg e (pre_transmit cfg s3))"
    by (simp add: main_loop_step_split)
  from pre_transmit_slots [of cfg s3] w(3) w(4)
  have pi: "irq_status (pre_transmit cfg s3) = 0" "irq2_status (pre_transmit cfg s3) = 0"
    by simp_all
  from pre_transmit_facts [of cfg s3] f(1) w(1) w(2)
  have pl: "link_state (pre_transmit cfg s3)
            = (if frame_tick cfg e s then LINK_STATE_TRANSMIT else LINK_STATE_TRANSMIT_WAIT)"
    by simp
  from other_handling_keeps [of cfg e "pre_transmit cfg s3"] pi pl
  have "link_state (other_handling cfg e (pre_transmit cfg s3))
          = (if frame_tick cfg e s then LINK_STATE_TRANSMIT else LINK_STATE_TRANSMIT_WAIT)
        \<and> irq_status (other_handling cfg e (pre_transmit cfg s3)) = 0
        \<and> irq2_status (other_handling cfg e (pre_transmit cfg s3)) = 0"
    by simp
  with step show ?thesis by blast
qed

text \<open>
  C3. Each execution of the branch \<^verbatim>\<open>LINK_STATE_TRANSMIT\<close> increments
  \<^verbatim>\<open>stats.transmit_seq_no\<close> by exactly 1 (an 8-bit counter: modulo 256) and advances
  \<^verbatim>\<open>fhss.curr_i\<close> by exactly 1 modulo \<^verbatim>\<open>FhssNum\<close>, for a hop set that is not empty. The
  other branches of the switch and the handling of the modems' causes change neither, and
  a pass that starts in Transmit always returns. Over a whole pass of the loop (interrupt
  handlers, system tick, switch, causes of both modems, pre-transmit step, the handling
  after it) \<^verbatim>\<open>fhss.curr_i\<close> has advanced by one when the pass started in Transmit and is
  unchanged otherwise; so has \<^verbatim>\<open>transmit_seq_no\<close> in every pass without the frame tick, and
  in the pass of the frame tick when \<^verbatim>\<open>stats.Clear\<close>, which is not in the sources, keeps the
  counter. A pass ends in Transmit exactly when it is the pass of the frame tick. So over
  a cycle, the pass through the transmit branch followed by any passes before the next
  frame tick, both have advanced exactly once; and when the last pass of such a cycle
  finds the link in TransmitWait with the timeout bit in the slot of a modem in use, and
  no slot of a modem in use is taken by TX_DONE, the link is back in Idle, both receive
  statuses are None, and both have still advanced exactly once.
\<close>

theorem transmit_cycle_increments_once:
  assumes "0 < FhssNum cfg"
  shows "transmit_seq_no (stats (link_transmit cfg s)) = transmit_seq_no (stats s) + 1
       \<and> unat (transmit_seq_no (stats (link_transmit cfg s)))
         = (unat (transmit_seq_no (stats s)) + 1) mod 256
       \<and> fhss_curr_i (link_transmit cfg s) = (fhss_curr_i s + 1) mod FhssNum cfg
       \<and> fhss_curr_i (link_transmit cfg s) < FhssNum cfg
       \<and> (link_state s = LINK_STATE_TRANSMIT \<longrightarrow> link_state_switch cfg s = link_transmit cfg s)
       \<and> (link_state s \<noteq> LINK_STATE_TRANSMIT
            \<longrightarrow> transmit_seq_no (stats (link_state_switch cfg s)) = transmit_seq_no (stats s)
              \<and> fhss_curr_i (link_state_switch cfg s) = fhss_curr_i s)
       \<and> (irq_handling cfg r s = Some s'
            \<longrightarrow> transmit_seq_no (stats s') = transmit_seq_no (stats s)
              \<and> fhss_curr_i s' = fhss_curr_i s)
       \<and> (irq2_handling cfg r s = Some s'
            \<longrightarrow> transmit_seq_no (stats s') = transmit_seq_no (stats s)
              \<and> fhss_curr_i s' = fhss_curr_i s)
       \<and> (link_state s = LINK_STATE_TRANSMIT
            \<longrightarrow> (\<exists>t. main_loop_step cfg e s = Some t))
       \<and> (main_loop_step cfg e s = Some p
            \<longrightarrow> fhss_curr_i p
                = (if link_state s = LINK_STATE_TRANSMIT
                   then (fhss_curr_i s + 1) mod FhssNum cfg else fhss_curr_i s)
              \<and> (link_state p = LINK_STATE_TRANSMIT) = frame_tick cfg e s
              \<and> (\<not> frame_tick cfg e s
                  \<or> (\<forall>st. transmit_seq_no (stats_Clear cfg st) = transmit_seq_no st)
                 \<longrightarrow> transmit_seq_no (stats p)
                     = transmit_seq_no (stats s)
                       + (if link_state s = LINK_STATE_TRANSMIT then 1 else 0)))
       \<and> (link_state s = LINK_STATE_TRANSMIT \<and> no_frame_tick cfg (e # es) s
          \<and> main_loop cfg (e # es) s = Some q
            \<longrightarrow> transmit_seq_no (stats q) = transmit_seq_no (stats s) + 1
              \<and> fhss_curr_i q = (fhss_curr_i s + 1) mod FhssNum cfg)
       \<and> (link_state s = LINK_STATE_TRANSMIT \<and> no_frame_tick cfg (e # es @ [e']) s
          \<and> main_loop cfg (e # es) s = Some sw \<and> link_state sw = LINK_STATE_TRANSMIT_WAIT
          \<and> (USE_ANTENNA1 cfg \<longrightarrow> no_done cfg (slot1 cfg e' sw))
          \<and> (USE_ANTENNA2 cfg \<longrightarrow> no_done cfg (slot2 cfg e' sw))
          \<and> ((USE_ANTENNA1 cfg \<and> slot1 cfg e' sw AND SX12xx_IRQ_TIMEOUT cfg \<noteq> 0)
              \<or> (USE_ANTENNA2 cfg \<and> slot2 cfg e' sw AND SX12xx_IRQ_TIMEOUT cfg \<noteq> 0))
            \<longrightarrow> (\<exists>s''. main_loop cfg (e # es @ [e']) s = Some s''
                  \<and> link_state s'' = LINK_STATE_IDLE
                  \<and> link_rx1_status s'' = RX_STATUS_NONE
                  \<and> link_rx2_status s'' = RX_STATUS_NONE
                  \<and> transmit_seq_no (stats s'') = transmit_seq_no (stats s) + 1
                  \<and> fhss_curr_i s'' = (fhss_curr_i s + 1) mod FhssNum cfg))"
proof -
  have w: "unat (transmit_seq_no (stats s) + 1) = (unat (transmit_seq_no (stats s)) + 1) mod 256"
    by (simp add: unat_word_ariths)
  from assms have lt: "(fhss_curr_i s + 1) mod FhssNum cfg < FhssNum cfg" by simp
  have a: "transmit_seq_no (stats (link_transmit cfg s)) = transmit_seq_no (stats s) + 1
       \<and> unat (transmit_seq_no (stats (link_transmit cfg s)))
         = (unat (transmit_seq_no (stats s)) + 1) mod 256
       \<and> fhss_curr_i (link_transmit cfg s) = (fhss_curr_i s + 1) mod FhssNum cfg
       \<and> fhss_curr_i (link_transmit cfg s) < FhssNum cfg
       \<and> (link_state s = LINK_STATE_TRANSMIT \<longrightarrow> link_state_switch cfg s = link_transmit cfg s)"
    using w lt by (simp add: link_transmit_effect link_state_switch_def)
  have b: "link_state s \<noteq> LINK_STATE_TRANSMIT
            \<longrightarrow> transmit_seq_no (stats (link_state_switch cfg s)) = transmit_seq_no (stats s)
              \<and> fhss_curr_i (link_state_switch cfg s) = fhss_curr_i s"
    using link_state_switch_keeps [of s cfg] by simp
  have c: "(irq_handling cfg r s = Some s'
            \<longrightarrow> transmit_seq_no (stats s') = transmit_seq_no (stats s)
              \<and> fhss_curr_i s' = fhss_curr_i s)
       \<and> (irq2_handling cfg r s = Some s'
            \<longrightarrow> transmit_seq_no (stats s') = transmit_seq_no (stats s)
              \<and> fhss_curr_i s' = fhss_curr_i s)"
    using irq_handling_keeps [of cfg r s s'] irq2_handling_keeps [of cfg r s s'] by simp
  have d: "link_state s = LINK_STATE_TRANSMIT \<longrightarrow> (\<exists>t. main_loop_step cfg e s = Some t)"
    using transmit_pass_returns [of s cfg e] by blast
  have p: "main_loop_step cfg e s = Some p
            \<longrightarrow> fhss_curr_i p
                = (if link_state s = LINK_STATE_TRANSMIT
                   then (fhss_curr_i s + 1) mod FhssNum cfg else fhss_curr_i s)
              \<and> (link_state p = LINK_STATE_TRANSMIT) = frame_tick cfg e s
              \<and> (\<not> frame_tick cfg e s
                  \<or> (\<forall>st. transmit_seq_no (stats_Clear cfg st) = transmit_seq_no st)
                 \<longrightarrow> transmit_seq_no (stats p)
                     = transmit_seq_no (stats s)
                       + (if link_state s = LINK_STATE_TRANSMIT then 1 else 0))"
    using pass_facts(1) [of cfg e s p] pass_facts(2) [of cfg e s p] pass_facts(3) [of cfg e s p]
    by blast
  have q: "link_state s = LINK_STATE_TRANSMIT \<and> no_frame_tick cfg (e # es) s
          \<and> main_loop cfg (e # es) s = Some q
            \<longrightarrow> transmit_seq_no (stats q) = transmit_seq_no (stats s) + 1
              \<and> fhss_curr_i q = (fhss_curr_i s + 1) mod FhssNum cfg"
    using transmit_cycle [of s cfg e es q] by blast
  have t: "link_state s = LINK_STATE_TRANSMIT \<and> no_frame_tick cfg (e # es @ [e']) s
          \<and> main_loop cfg (e # es) s = Some sw \<and> link_state sw = LINK_STATE_TRANSMIT_WAIT
          \<and> (USE_ANTENNA1 cfg \<longrightarrow> no_done cfg (slot1 cfg e' sw))
          \<and> (USE_ANTENNA2 cfg \<longrightarrow> no_done cfg (slot2 cfg e' sw))
          \<and> ((USE_ANTENNA1 cfg \<and> slot1 cfg e' sw AND SX12xx_IRQ_TIMEOUT cfg \<noteq> 0)
              \<or> (USE_ANTENNA2 cfg \<and> slot2 cfg e' sw AND SX12xx_IRQ_TIMEOUT cfg \<noteq> 0))
            \<longrightarrow> (\<exists>s''. main_loop cfg (e # es @ [e']) s = Some s''
                  \<and> link_state s'' = LINK_STATE_IDLE
                  \<and> link_rx1_status s'' = RX_STATUS_NONE
                  \<and> link_rx2_status s'' = RX_STATUS_NONE
                  \<and> transmit_seq_no (stats s'') = transmit_seq_no (stats s) + 1
                  \<and> fhss_curr_i s'' = (fhss_curr_i s + 1) mod FhssNum cfg)"
    using timeout_ends_cycle [of s cfg e es e' sw] by blast
  from a b c d p q t show ?thesis by (elim conjE, intro conjI) assumption+
qed

theorem transmit_cycle_witness:
  "0 < FhssNum cfg0
   \<and> link_state (tx0\<lparr> link_state := LINK_STATE_TRANSMIT \<rparr>) = LINK_STATE_TRANSMIT
   \<and> transmit_seq_no (stats (tx0\<lparr> link_state := LINK_STATE_TRANSMIT \<rparr>)) = 0
   \<and> fhss_curr_i (tx0\<lparr> link_state := LINK_STATE_TRANSMIT \<rparr>) = 0
   \<and> transmit_seq_no (stats (link_transmit cfg0 (tx0\<lparr> link_state := LINK_STATE_TRANSMIT \<rparr>))) = 1
   \<and> fhss_curr_i (link_transmit cfg0 (tx0\<lparr> link_state := LINK_STATE_TRANSMIT \<rparr>)) = 1
   \<and> no_frame_tick cfg0 [env0, env_tick, env_timeout] (tx0\<lparr> link_state := LINK_STATE_TRANSMIT \<rparr>)
   \<and> (\<exists>s'. main_loop cfg0 [env0, env_tick, env_timeout]
                (tx0\<lparr> link_state := LINK_STATE_TRANSMIT \<rparr>) = Some s'
          \<and> link_state s' = LINK_STATE_IDLE
          \<and> link_rx1_status s' = RX_STATUS_NONE \<and> link_rx2_status s' = RX_STATUS_NONE
          \<and> transmit_seq_no (stats s') = 1
          \<and> fhss_curr_i s' = 1)
   \<and> (\<exists>sa sb. main_loop_step cfg0 env0 (tx0\<lparr> link_state := LINK_STATE_TRANSMIT \<rparr>) = Some sa
          \<and> link_state sa = LINK_STATE_TRANSMIT_WAIT
          \<and> transmit_seq_no (stats sa) = 1 \<and> fhss_curr_i sa = 1
          \<and> doSysTask env_tick \<and> \<not> frame_tick cfg0 env_tick sa
          \<and> main_loop_step cfg0 env_tick sa = Some sb
          \<and> link_state sb = LINK_STATE_TRANSMIT_WAIT
          \<and> transmit_seq_no (stats sb) = 1 \<and> fhss_curr_i sb = 1)"
proof -
  let ?s = "tx0\<lparr> link_state := LINK_STATE_TRANSMIT \<rparr>"
  have f: "0 < FhssNum cfg0" by (simp add: cfg0_def)
  have c: "USE_ANTENNA1 cfg0" "USE_ANTENNA2 cfg0" "FhssNum cfg0 = 24"
    "DECc cfg0 0 (frame_rate_systicks cfg0) = 19" "DECc cfg0 19 (frame_rate_systicks cfg0) = 18"
    by (simp_all add: cfg0_def)
  have s: "link_state ?s = LINK_STATE_TRANSMIT" "\<not> doPreTransmit ?s"
    "transmit_seq_no (stats ?s) = 0" "fhss_curr_i ?s = 0" "tx_tick ?s = 0"
    by (simp_all add: tx0_def stats0_def)
  have e: "\<not> doSysTask env0" "doSysTask env_tick" "doSysTask env_timeout"
    "dio1 env_tick = None" "dio2 env_tick = None"
    "dio1 env_timeout = Some (0x4000, [])" "dio2 env_timeout = None"
    by (simp_all add: env0_def env_tick_def env_timeout_def)
  have ft1: "\<not> frame_tick cfg0 env0 ?s" using s(2) e(1) by (simp add: frame_tick_def)
  from transmit_pass_returns [OF s(1), of cfg0 env0] ft1 obtain sa where
    sa: "main_loop_step cfg0 env0 ?s = Some sa" "link_state sa = LINK_STATE_TRANSMIT_WAIT"
      "irq_status sa = 0" "irq2_status sa = 0" by auto
  from pass_tx_tick [OF sa(1)] e(1) s(5) have ta: "tx_tick sa = 0" by simp
  from pass_facts(4) [OF sa(1)] have pa: "\<not> doPreTransmit sa" .
  have ft2: "\<not> frame_tick cfg0 env_tick sa" using pa ta c(4) by (simp add: frame_tick_def)
  have sl2: "slot1 cfg0 env_tick sa = 0" "slot2 cfg0 env_tick sa = 0"
    using sa(3) sa(4) e(4) e(5) by (simp_all add: slot1_def slot2_def interrupts_keeps)
  have nd0: "no_done cfg0 0" by (simp add: no_done_def)
  from wait_pass [OF sa(2) ft2, unfolded sl2] nd0 obtain sb where
    sb: "main_loop_step cfg0 env_tick sa = Some sb" "link_state sb = LINK_STATE_TRANSMIT_WAIT"
      "irq_status sb = 0" "irq2_status sb = 0" by auto
  from pass_tx_tick [OF sb(1)] e(2) ta c(4) have tb: "tx_tick sb = 19" by simp
  from pass_facts(4) [OF sb(1)] have pb: "\<not> doPreTransmit sb" .
  have ft3: "\<not> frame_tick cfg0 env_timeout sb" using pb tb c(5) by (simp add: frame_tick_def)
  have sl3: "slot1 cfg0 env_timeout sb = 0x4000" "slot2 cfg0 env_timeout sb = 0"
    using sb(4) e(6) e(7)
    by (simp_all add: slot1_def slot2_def interrupts_keeps SX_DIO_EXTI_IRQHandler_def cfg0_def)
  have nd: "no_done cfg0 0x4000" "(0x4000 :: u16) AND SX12xx_IRQ_TIMEOUT cfg0 \<noteq> 0"
    by (simp_all add: no_done_def cfg0_def)
  have nf: "no_frame_tick cfg0 [env0, env_tick, env_timeout] ?s"
    using ft1 ft2 ft3 sa(1) sb(1) by (simp split: option.splits)
  have run: "main_loop cfg0 [env0, env_tick] ?s = Some sb" using sa(1) sb(1) by simp
  have ap: "env0 # [env_tick] @ [env_timeout] = [env0, env_tick, env_timeout]" by simp
  from transmit_cycle_increments_once [OF f, where s = ?s and e = env0 and es = "[env_tick]"
         and e' = env_timeout and sw = sb]
       s(1) nf run sb(2) sl3 nd nd0 c(1) c(2)
  have "\<exists>s''. main_loop cfg0 [env0, env_tick, env_timeout] ?s = Some s''
          \<and> link_state s'' = LINK_STATE_IDLE
          \<and> link_rx1_status s'' = RX_STATUS_NONE \<and> link_rx2_status s'' = RX_STATUS_NONE
          \<and> transmit_seq_no (stats s'') = transmit_seq_no (stats ?s) + 1
          \<and> fhss_curr_i s'' = (fhss_curr_i ?s + 1) mod FhssNum cfg0"
    unfolding ap by (simp del: main_loop.simps no_frame_tick.simps)
  moreover
  from transmit_cycle_increments_once [OF f, where s = ?s] s(3) s(4) c(3)
  have "transmit_seq_no (stats (link_transmit cfg0 ?s)) = 1
        \<and> fhss_curr_i (link_transmit cfg0 ?s) = 1" by simp
  moreover
  from transmit_cycle_increments_once [OF f, where s = ?s and e = env0 and p = sa,
         THEN conjunct2, THEN conjunct2, THEN conjunct2, THEN conjunct2, THEN conjunct2,
         THEN conjunct2, THEN conjunct2, THEN conjunct2, THEN conjunct2, THEN conjunct1,
         rule_format, OF sa(1)] ft1 s(1) s(3) s(4) c(3)
  have va: "transmit_seq_no (stats sa) = 1" "fhss_curr_i sa = 1" by simp_all
  from transmit_cycle_increments_once [OF f, where s = sa and e = env_tick and p = sb,
         THEN conjunct2, THEN conjunct2, THEN conjunct2, THEN conjunct2, THEN conjunct2,
         THEN conjunct2, THEN conjunct2, THEN conjunct2, THEN conjunct2, THEN conjunct1,
         rule_format, OF sb(1)] ft2 sa(2) va
  have vb: "transmit_seq_no (stats sb) = 1" "fhss_curr_i sb = 1" by simp_all
  from sa(1) sa(2) va e(2) ft2 sb(1) sb(2) vb
  have "\<exists>sa sb. main_loop_step cfg0 env0 ?s = Some sa
          \<and> link_state sa = LINK_STATE_TRANSMIT_WAIT
          \<and> transmit_seq_no (stats sa) = 1 \<and> fhss_curr_i sa = 1
          \<and> doSysTask env_tick \<and> \<not> frame_tick cfg0 env_tick sa
          \<and> main_loop_step cfg0 env_tick sa = Some sb
          \<and> link_state sb = LINK_STATE_TRANSMIT_WAIT
          \<and> transmit_seq_no (stats sb) = 1 \<and> fhss_curr_i sb = 1" by blast
  ultimately show ?thesis using f s(1) s(3) s(4) c(3) nf
    by (auto simp del: main_loop.simps no_frame_tick.simps)
qed

subsection \<open>The slot of the pending request\<close>













end
